theory Spec2Isabelle
  imports Complex_Main
begin

section \<open>JavaScript values\<close>

text \<open>
  A JavaScript number is NaN, an infinity, the negative zero, or another finite value.
  Finite values are kept as reals: rounding to binary64 (and to binary32 inside a
  \<open>Float32Array\<close>) is not represented, so \<open>Num r\<close> stands for the floating-point number
  nearest to \<open>r\<close> at the precision of the variable that holds it. \<open>Num 0\<close> is the
  positive zero and \<open>NegZero\<close> the negative one.
\<close>

datatype jsnum = NaN | PosInf | NegInf | NegZero | Num real

text \<open>
  The values that reach the ingestion code: \<open>undefined\<close> (an array read out of range, an
  absent field), numbers, and arrays. A JSON document is limited to numbers and arrays
  here; strings, booleans, null and objects inside the data fields are outside the model.
\<close>

datatype jsval = Undefined | JNum jsnum | JArr "jsval list"

datatype js_error = TypeError | RangeError

text \<open>The sign of a number, its value when it is finite, and the two tests used below.\<close>

fun is_neg :: "jsnum \<Rightarrow> bool" where
  "is_neg (Num a) = (a < 0)"
| "is_neg NegInf = True"
| "is_neg NegZero = True"
| "is_neg _ = False"

fun fin_val :: "jsnum \<Rightarrow> real" where
  "fin_val (Num a) = a"
| "fin_val _ = 0"

definition is_inf :: "jsnum \<Rightarrow> bool" where
  "is_inf x \<longleftrightarrow> x = PosInf \<or> x = NegInf"

definition is_zero :: "jsnum \<Rightarrow> bool" where
  "is_zero x \<longleftrightarrow> x = Num 0 \<or> x = NegZero"

text \<open>
  The operator \<open>*\<close> on numbers: NaN for a NaN operand and for zero times infinity; the
  sign of the result is negative when the signs of the operands differ.
\<close>

definition jmul :: "jsnum \<Rightarrow> jsnum \<Rightarrow> jsnum" where
  "jmul x y =
     (if x = NaN \<or> y = NaN then NaN
      else if (is_inf x \<and> is_zero y) \<or> (is_zero x \<and> is_inf y) then NaN
      else if is_inf x \<or> is_inf y then (if is_neg x = is_neg y then PosInf else NegInf)
      else if fin_val x * fin_val y = 0 then (if is_neg x = is_neg y then Num 0 else NegZero)
      else Num (fin_val x * fin_val y))"

text \<open>Unary minus on numbers.\<close>

fun jneg :: "jsnum \<Rightarrow> jsnum" where
  "jneg NaN = NaN"
| "jneg PosInf = NegInf"
| "jneg NegInf = PosInf"
| "jneg NegZero = Num 0"
| "jneg (Num a) = (if a = 0 then NegZero else Num (- a))"

text \<open>
  \<open>arr_num v\<close> is \<open>Number(String(v))\<close> for an element \<open>v\<close> of an array: the conversion
  of an array to a number goes through its string form, the elements joined by commas,
  with \<open>undefined\<close> printed as the empty string and the negative zero as \<open>0\<close>. Two or
  more elements give a string with a comma, which is no numeric literal.
\<close>

fun arr_num :: "jsval \<Rightarrow> jsnum" where
  "arr_num Undefined = Num 0"
| "arr_num (JNum n) = (if n = NegZero then Num 0 else n)"
| "arr_num (JArr []) = Num 0"
| "arr_num (JArr [x]) = arr_num x"
| "arr_num (JArr (x # y # zs)) = NaN"

fun ToNumber :: "jsval \<Rightarrow> jsnum" where
  "ToNumber Undefined = NaN"
| "ToNumber (JNum n) = n"
| "ToNumber (JArr xs) = arr_num (JArr xs)"

text \<open>\<open>xs[i]\<close> on an array: \<open>undefined\<close> out of range.\<close>

definition idx :: "jsval list \<Rightarrow> nat \<Rightarrow> jsval" where
  "idx xs i = (if i < length xs then xs ! i else Undefined)"

text \<open>\<open>new Float32Array(xs)\<close>: one slot for each element, converted to a number.\<close>

definition Float32Array :: "jsval list \<Rightarrow> jsnum list" where
  "Float32Array xs = map ToNumber xs"

text \<open>\<open>Array.prototype.flat(d)\<close>: nested arrays are spliced in, down to depth \<open>d\<close>.\<close>

fun flat :: "nat \<Rightarrow> jsval list \<Rightarrow> jsval list" where
  "flat d [] = []"
| "flat d (JArr ys # r) =
     (case d of 0 \<Rightarrow> JArr ys # flat 0 r | Suc k \<Rightarrow> flat k ys @ flat d r)"
| "flat d (x # r) = x # flat d r"

section \<open>Strings\<close>

text \<open>
  A string is a list of characters, each standing for a UTF-16 code unit below 256. The
  white space that \<open>trim\<close> and \<open>Number\<close> strip is, in that range: tab, line feed,
  vertical tab, form feed, carriage return, space and the no-break space.
\<close>

definition is_ws :: "char \<Rightarrow> bool" where
  "is_ws c \<longleftrightarrow> c \<in> set [CHR 0x09, CHR 0x0A, CHR 0x0B, CHR 0x0C, CHR 0x0D, CHR 0x20, CHR 0xA0]"

definition js_trim :: "string \<Rightarrow> string" where
  "js_trim s = rev (dropWhile is_ws (rev (dropWhile is_ws s)))"

definition startsWith :: "string \<Rightarrow> string \<Rightarrow> bool" where
  "startsWith s p \<longleftrightarrow> take (length p) s = p"

text \<open>
  \<open>s.split(sep)\<close> for a separator of one character: the pieces between the separators,
  empty pieces included; the empty string gives one empty piece.
\<close>

fun split_on :: "char \<Rightarrow> string \<Rightarrow> string list" where
  "split_on sep [] = [[]]"
| "split_on sep (c # cs) =
     (let r = split_on sep cs in if c = sep then [] # r else (c # hd r) # tl r)"

subsection \<open>The conversion of a string to a number\<close>

definition digit_val :: "char \<Rightarrow> nat option" where
  "digit_val c =
     (let n = (of_char c :: nat) in
      if 48 \<le> n \<and> n \<le> 57 then Some (n - 48)
      else if 97 \<le> n \<and> n \<le> 102 then Some (n - 87)
      else if 65 \<le> n \<and> n \<le> 70 then Some (n - 55)
      else None)"

text \<open>The value of a digit string in base \<open>b\<close>; \<open>None\<close> at a character that is no digit of the base.\<close>

fun digits_val :: "nat \<Rightarrow> string \<Rightarrow> nat \<Rightarrow> nat option" where
  "digits_val b [] acc = Some acc"
| "digits_val b (c # cs) acc =
     (case digit_val c of
        None \<Rightarrow> None
      | Some d \<Rightarrow> if d < b then digits_val b cs (acc * b + d) else None)"

text \<open>The exponent part: empty, or \<open>e\<close>/\<open>E\<close>, an optional sign and at least one digit.\<close>

definition exponent_part :: "string \<Rightarrow> int option" where
  "exponent_part s =
     (case s of
        [] \<Rightarrow> Some 0
      | _ # ds \<Rightarrow>
          (let neg = (ds \<noteq> [] \<and> hd ds = CHR ''-'');
               body = (if ds \<noteq> [] \<and> (hd ds = CHR ''-'' \<or> hd ds = CHR ''+'') then tl ds else ds)
           in if body = [] then None
              else (case digits_val 10 body 0 of
                      None \<Rightarrow> None
                    | Some n \<Rightarrow> Some (if neg then - int n else int n))))"

text \<open>
  An unsigned decimal literal: \<open>Infinity\<close>, or digits with an optional fraction and an
  optional exponent, at least one digit before or after the point.
\<close>

definition unsigned_decimal :: "string \<Rightarrow> jsnum" where
  "unsigned_decimal s =
     (if s = ''Infinity'' then PosInf
      else
        let is_e = (\<lambda>c. c = CHR ''e'' \<or> c = CHR ''E'');
            mant = takeWhile (\<lambda>c. \<not> is_e c) s;
            ip = takeWhile (\<lambda>c. c \<noteq> CHR ''.'') mant;
            fr = drop 1 (dropWhile (\<lambda>c. c \<noteq> CHR ''.'') mant)
        in if ip = [] \<and> fr = [] then NaN
           else (case (digits_val 10 (ip @ fr) 0, exponent_part (dropWhile (\<lambda>c. \<not> is_e c) s)) of
                   (Some m, Some ex) \<Rightarrow>
                     (let e = ex - int (length fr)
                      in Num (if 0 \<le> e then real m * 10 ^ nat e else real m / 10 ^ nat (- e)))
                 | _ \<Rightarrow> NaN))"

definition nondecimal :: "nat \<Rightarrow> string \<Rightarrow> jsnum" where
  "nondecimal b ds =
     (if ds = [] then NaN
      else (case digits_val b ds 0 of None \<Rightarrow> NaN | Some n \<Rightarrow> Num (real n)))"

text \<open>
  \<open>Number(str)\<close>: white space is stripped from both ends; the empty string is 0; a
  hexadecimal, octal or binary literal has no sign; anything that is no numeric literal
  is NaN.
\<close>

definition js_Number :: "string \<Rightarrow> jsnum" where
  "js_Number str =
     (let s = js_trim str in
      if s = [] then Num 0
      else if startsWith s ''0x'' \<or> startsWith s ''0X'' then nondecimal 16 (drop 2 s)
      else if startsWith s ''0o'' \<or> startsWith s ''0O'' then nondecimal 8 (drop 2 s)
      else if startsWith s ''0b'' \<or> startsWith s ''0B'' then nondecimal 2 (drop 2 s)
      else if hd s = CHR ''+'' then unsigned_decimal (tl s)
      else if hd s = CHR ''-'' then jneg (unsigned_decimal (tl s))
      else unsigned_decimal s)"

section \<open>Volume ingestion\<close>

record volume =
  voxel :: "jsnum list"
  dims :: "jsval list"
  affine :: "jsnum list"

subsection \<open>The sectioned text form: \<open>parseVoxelTxt\<close>\<close>

text \<open>
  The variables of the loop over the lines: the current section (\<open>None\<close> for \<open>null\<close>),
  the arrays \<open>shape\<close> and \<open>affineValues\<close>, and the string \<open>voxelLine\<close>.
\<close>

record pstate =
  cur_section :: "string option"
  shape :: "jsval list"
  affineValues :: "jsval list"
  voxelLine :: string

definition pstate_init :: pstate where
  "pstate_init = \<lparr>cur_section = None, shape = [], affineValues = [], voxelLine = []\<rparr>"

text \<open>\<open>line.trim().split(' ').map(Number)\<close>\<close>

definition line_numbers :: "string \<Rightarrow> jsval list" where
  "line_numbers line = map (\<lambda>t. JNum (js_Number t)) (split_on CHR '' '' (js_trim line))"

text \<open>One iteration of the loop over the lines.\<close>

definition parse_line :: "pstate \<Rightarrow> string \<Rightarrow> pstate" where
  "parse_line st line =
     (if startsWith line ''--'' then st\<lparr>cur_section := Some (js_trim line)\<rparr>
      else if cur_section st = Some ''--header--'' then
        st\<lparr>shape := shape st @ line_numbers line\<rparr>
      else if cur_section st = Some ''--affine--'' then
        st\<lparr>affineValues := affineValues st @ line_numbers line\<rparr>
      else if cur_section st = Some ''--voxel--'' then
        st\<lparr>voxelLine := voxelLine st @ js_trim line @ '' ''\<rparr>
      else st)"

definition parseVoxelTxt :: "string \<Rightarrow> volume" where
  "parseVoxelTxt text =
     (let st = foldl parse_line pstate_init (split_on CHR 0x0A text);
          sh = shape st
      in \<lparr>voxel = Float32Array (line_numbers (voxelLine st)),
          dims = [idx sh 1, idx sh 2, idx sh 0],
          affine = Float32Array (affineValues st)\<rparr>)"

subsection \<open>The structured document form: \<open>loadVolumeJSON\<close>\<close>

text \<open>
  The parsed document, with the three fields the function reads. A field that is absent
  is \<open>Undefined\<close>. Calling \<open>flat\<close> on a value that is no array, and indexing
  \<open>undefined\<close>, raise a TypeError; indexing a number gives \<open>undefined\<close>.
\<close>

record json_doc =
  voxel_data :: jsval
  json_shape :: jsval
  json_affine :: jsval

definition loadVolumeJSON :: "json_doc \<Rightarrow> js_error + volume" where
  "loadVolumeJSON json =
     (case voxel_data json of
        JArr vd \<Rightarrow>
          (let voxel = Float32Array (flat 3 vd) in
           if json_shape json = Undefined then Inl TypeError
           else
             let dimsRaw = (case json_shape json of JArr s \<Rightarrow> s | _ \<Rightarrow> []);
                 dims = [idx dimsRaw 1, idx dimsRaw 2, idx dimsRaw 0]
             in (case json_affine json of
                   JArr a \<Rightarrow> Inr \<lparr>voxel = voxel, dims = dims, affine = Float32Array (flat 1 a)\<rparr>
                 | _ \<Rightarrow> Inl TypeError))
      | _ \<Rightarrow> Inl TypeError)"

section \<open>Upload and the frame loop: \<open>main\<close>\<close>

text \<open>
  Of the calls that \<open>main\<close> issues to the graphics backend, the texture creation and
  write (the upload) and the buffer write and draw of a frame are recorded, in the order
  in which they are made. The adapter and the device are taken to be available; what
  the backend does with a call is not part of the program.
\<close>

datatype gpu_call =
    CreateTexture "jsval list"
  | WriteTexture "jsnum list" jsnum jsval "jsval list"
  | WriteBuffer "jsnum list"
  | Draw nat nat nat nat

text \<open>
  \<open>device.createTexture({size: dims, ...})\<close>, then \<open>device.queue.writeTexture\<close> with
  \<open>bytesPerRow: dims[0] * 4\<close>, \<open>rowsPerImage: dims[1]\<close> and the size \<open>dims\<close>. The
  parameters \<open>dims\<close> and \<open>affine\<close> of \<open>main\<close> are written with a prime here and below,
  the plain names being the fields of the record that the ingestion returns.
\<close>

definition main_upload :: "jsnum list \<Rightarrow> jsval list \<Rightarrow> gpu_call list" where
  "main_upload voxelData dims' =
     [CreateTexture dims',
      WriteTexture voxelData (jmul (ToNumber (idx dims' 0)) (Num 4)) (idx dims' 1) dims']"

subsection \<open>Camera state and its event handlers\<close>

text \<open>
  The variables that the handlers close over. Pointer coordinates and wheel deltas are
  finite numbers, so the camera variables are reals.
\<close>

record camera =
  cameraTheta :: real
  cameraPhi :: real
  cameraRadius :: real
  cameraTarget :: "real \<times> real \<times> real"
  dragging :: bool
  lastX :: real
  lastY :: real

definition camera_init :: camera where
  "camera_init =
     \<lparr>cameraTheta = pi / 2, cameraPhi = pi / 2, cameraRadius = 2.5,
      cameraTarget = (0.5, 0.5, 0.5), dragging = False, lastX = 0, lastY = 0\<rparr>"

datatype event =
    MouseDown real real
  | MouseUp
  | MouseMove real real
  | Wheel real

fun handle :: "camera \<Rightarrow> event \<Rightarrow> camera" where
  "handle c (MouseDown clientX clientY) = c\<lparr>dragging := True, lastX := clientX, lastY := clientY\<rparr>"
| "handle c MouseUp = c\<lparr>dragging := False\<rparr>"
| "handle c (MouseMove clientX clientY) =
     (if \<not> dragging c then c
      else
        let dx = clientX - lastX c;
            dy = clientY - lastY c;
            phi = cameraPhi c - dy * 0.005
        in c\<lparr>lastX := clientX, lastY := clientY,
              cameraTheta := cameraTheta c - dx * 0.005,
              cameraPhi := max 0.05 (min (pi - 0.05) phi)\<rparr>)"
| "handle c (Wheel deltaY) =
     (let r = cameraRadius c * (1 + deltaY * 0.001)
      in c\<lparr>cameraRadius := max 0.5 (min 10.0 r)\<rparr>)"

definition handle_all :: "camera \<Rightarrow> event list \<Rightarrow> camera" where
  "handle_all c evs = foldl handle c evs"

subsection \<open>One frame: \<open>render\<close>\<close>

text \<open>
  The four functions of the matrix library that \<open>render\<close> calls, each on a fresh output
  matrix. The library is not part of the repository; its functions are parameters.
  \<open>invert\<close> gives \<open>None\<close> where the library returns \<open>null\<close>.
\<close>

record glmatrix =
  perspective :: "jsnum \<Rightarrow> jsnum \<Rightarrow> jsnum \<Rightarrow> jsnum \<Rightarrow> jsnum list"
  lookAt :: "jsnum list \<Rightarrow> jsnum list \<Rightarrow> jsnum list \<Rightarrow> jsnum list"
  multiply :: "jsnum list \<Rightarrow> jsnum list \<Rightarrow> jsnum list"
  invert :: "jsnum list \<Rightarrow> jsnum list option"

record app =
  cam :: camera
  canvas_width :: nat
  canvas_height :: nat

text \<open>\<open>canvas.width / canvas.height\<close>, both unsigned integers.\<close>

definition aspect_of :: "app \<Rightarrow> jsnum" where
  "aspect_of a =
     (if canvas_height a = 0 then (if canvas_width a = 0 then NaN else PosInf)
      else Num (real (canvas_width a) / real (canvas_height a)))"

text \<open>The projection, the view and the inverse of their product, as \<open>render\<close> derives them.\<close>

definition deriveMatrices ::
    "glmatrix \<Rightarrow> camera \<Rightarrow> jsnum \<Rightarrow> jsnum list \<times> jsnum list \<times> jsnum list option" where
  "deriveMatrices gl c aspect =
     (let proj = perspective gl (Num (pi / 4)) aspect (Num 0.1) (Num 100);
          (tx, ty, tz) = cameraTarget c;
          cx = tx + cameraRadius c * sin (cameraPhi c) * cos (cameraTheta c);
          cy = ty + cameraRadius c * cos (cameraPhi c);
          cz = tz + cameraRadius c * sin (cameraPhi c) * sin (cameraTheta c);
          eye = [Num cx, Num cy, Num cz];
          view = lookAt gl eye [Num tx, Num ty, Num tz] [Num 0, Num 1, Num 0];
          viewProj = multiply gl proj view;
          invViewProj = invert gl viewProj
      in (view, proj, invViewProj))"

text \<open>
  \<open>target.set(src, offset)\<close> on a typed array: a TypeError for \<open>null\<close>, a RangeError
  when the source does not fit, otherwise the source written over the slots from
  \<open>offset\<close> on.
\<close>

definition ta_set :: "jsnum list \<Rightarrow> jsnum list option \<Rightarrow> nat \<Rightarrow> js_error + jsnum list" where
  "ta_set target src offset =
     (case src of
        None \<Rightarrow> Inl TypeError
      | Some xs \<Rightarrow>
          if length target < offset + length xs then Inl RangeError
          else Inr (take offset target @ xs @ drop (offset + length xs) target))"

definition uniformBufferSize :: nat where
  "uniformBufferSize = 64 + 64 + 32"

text \<open>
  The uniform data of a frame: a zero-filled \<open>Float32Array\<close> of
  \<open>uniformBufferSize / 4\<close> slots, the three \<open>set\<close> calls, and the two indexed stores.
\<close>

definition pack_uniforms ::
    "jsnum list option \<Rightarrow> jsnum list option \<Rightarrow> jsval list \<Rightarrow> jsnum \<Rightarrow> jsnum \<Rightarrow> js_error + jsnum list" where
  "pack_uniforms invAffine invViewProj dims' low high =
     (case ta_set (replicate (uniformBufferSize div 4) (Num 0)) invAffine 0 of
        Inl e \<Rightarrow> Inl e
      | Inr u1 \<Rightarrow>
          (case ta_set u1 invViewProj 16 of
             Inl e \<Rightarrow> Inl e
           | Inr u2 \<Rightarrow>
               (case ta_set u2 (Some (map ToNumber dims')) 32 of
                  Inl e \<Rightarrow> Inl e
                | Inr u3 \<Rightarrow> Inr (u3[35 := low, 36 := high]))))"

text \<open>
  A frame reads the camera and the canvas, and the two thresholds from the page; it
  issues the buffer write and the draw, or stops at the error of a \<open>set\<close> call. The
  state it returns is the state it was given: \<open>render\<close> assigns to none of it.
\<close>

definition render ::
    "glmatrix \<Rightarrow> jsnum list \<Rightarrow> jsval list \<Rightarrow> jsnum \<Rightarrow> jsnum \<Rightarrow> app \<Rightarrow> (js_error + gpu_call list) \<times> app" where
  "render gl affine' dims' low high a =
     (let (view, proj, invViewProj) = deriveMatrices gl (cam a) (aspect_of a);
          invAffine = invert gl affine'
      in (case pack_uniforms invAffine invViewProj dims' low high of
            Inl e \<Rightarrow> (Inl e, a)
          | Inr uniformData \<Rightarrow> (Inr [WriteBuffer uniformData, Draw 6 1 0 0], a)))"

text \<open>
  \<open>main\<close> up to the end of its first frame: the upload, then \<open>render\<close> from the initial
  camera. The result is the list of backend calls made and the error that ended the
  frame, if any.
\<close>

definition main ::
    "glmatrix \<Rightarrow> nat \<Rightarrow> nat \<Rightarrow> jsnum \<Rightarrow> jsnum \<Rightarrow> jsnum list \<Rightarrow> jsval list \<Rightarrow> jsnum list
       \<Rightarrow> gpu_call list \<times> js_error option" where
  "main gl w h low high voxelData dims' affine' =
     (let a = \<lparr>cam = camera_init, canvas_width = w, canvas_height = h\<rparr>
      in (case fst (render gl affine' dims' low high a) of
            Inl e \<Rightarrow> (main_upload voxelData dims', Some e)
          | Inr calls \<Rightarrow> (main_upload voxelData dims' @ calls, None)))"

text \<open>The entry point: \<open>parseVoxelTxt(...).then(({voxel, dims, affine}) => main(voxel, dims, affine))\<close>.\<close>

definition program ::
    "glmatrix \<Rightarrow> nat \<Rightarrow> nat \<Rightarrow> jsnum \<Rightarrow> jsnum \<Rightarrow> string \<Rightarrow> gpu_call list \<times> js_error option" where
  "program gl w h low high text =
     (let v = parseVoxelTxt text in main gl w h low high (voxel v) (dims v) (affine v))"

section \<open>The ray-marching kernel: \<open>fsMain\<close>\<close>

text \<open>
  The arithmetic of the shader is taken over the reals. A vector is a tuple; a matrix
  is the tuple of its four columns, as the shading language stores it.
\<close>

type_synonym vec3 = "real \<times> real \<times> real"
type_synonym vec4 = "real \<times> real \<times> real \<times> real"
type_synonym mat4x4 = "vec4 \<times> vec4 \<times> vec4 \<times> vec4"

record uniforms =
  u_invAffine :: mat4x4
  u_invViewProj :: mat4x4
  u_volumeDims :: vec3
  u_thresholdLow :: real
  u_thresholdHigh :: real

fun mat_vec :: "mat4x4 \<Rightarrow> vec4 \<Rightarrow> vec4" where
  "mat_vec ((a0, a1, a2, a3), (b0, b1, b2, b3), (c0, c1, c2, c3), (d0, d1, d2, d3)) (x, y, z, w) =
     (a0 * x + b0 * y + c0 * z + d0 * w,
      a1 * x + b1 * y + c1 * z + d1 * w,
      a2 * x + b2 * y + c2 * z + d2 * w,
      a3 * x + b3 * y + c3 * z + d3 * w)"

fun xyz :: "vec4 \<Rightarrow> vec3" where
  "xyz (x, y, z, w) = (x, y, z)"

fun all_ge :: "vec3 \<Rightarrow> vec3 \<Rightarrow> bool" where
  "all_ge (x, y, z) (a, b, c) \<longleftrightarrow> x \<ge> a \<and> y \<ge> b \<and> z \<ge> c"

fun all_le :: "vec3 \<Rightarrow> vec3 \<Rightarrow> bool" where
  "all_le (x, y, z) (a, b, c) \<longleftrightarrow> x \<le> a \<and> y \<le> b \<and> z \<le> c"

fun vmul :: "vec3 \<Rightarrow> vec3 \<Rightarrow> vec3" where
  "vmul (x, y, z) (a, b, c) = (x * a, y * b, z * c)"

fun vsub :: "vec3 \<Rightarrow> vec3 \<Rightarrow> vec3" where
  "vsub (x, y, z) (a, b, c) = (x - a, y - b, z - c)"

fun vadd :: "vec3 \<Rightarrow> vec3 \<Rightarrow> vec3" where
  "vadd (x, y, z) (a, b, c) = (x + a, y + b, z + c)"

fun scale :: "real \<Rightarrow> vec3 \<Rightarrow> vec3" where
  "scale t (x, y, z) = (t * x, t * y, t * z)"

definition vec3f :: "real \<Rightarrow> vec3" where
  "vec3f s = (s, s, s)"

text \<open>The conversion of a float to \<open>u32\<close>: truncation, within the range of the type.\<close>

definition to_u32 :: "real \<Rightarrow> nat" where
  "to_u32 x = min (2 ^ 32 - 1) (nat \<lfloor>x\<rfloor>)"

fun vec3u :: "vec3 \<Rightarrow> nat \<times> nat \<times> nat" where
  "vec3u (x, y, z) = (to_u32 x, to_u32 y, to_u32 z)"

text \<open>
  \<open>smoothstep\<close>: the quotient clamped to \<open>[0, 1]\<close>, then the cubic. For \<open>high = low\<close>
  the quotient of the shader is an infinity, which the clamp takes to 1 for \<open>x\<close> above
  \<open>low\<close> and to 0 for \<open>x\<close> below it; at \<open>x = low\<close> it is NaN, which the reals do not
  have and for which 0 is taken.
\<close>

definition smoothstep :: "real \<Rightarrow> real \<Rightarrow> real \<Rightarrow> real" where
  "smoothstep low high x =
     (let t = (if high = low then (if low < x then 1 else 0)
               else min (max ((x - low) / (high - low)) 0) 1)
      in t * t * (3 - 2 * t))"

definition maxDistance :: real where
  "maxDistance = 2.0"

definition stepSize :: real where
  "stepSize = 0.005"

text \<open>The mapped position of the sample at parameter \<open>t\<close>.\<close>

definition voxelPos_at :: "uniforms \<Rightarrow> vec3 \<Rightarrow> vec3 \<Rightarrow> real \<Rightarrow> vec3" where
  "voxelPos_at u rayOrigin rayDir t =
     (let worldPos = vadd rayOrigin (scale t rayDir);
          voxelPos4 = mat_vec (u_invAffine u) (case worldPos of (x, y, z) \<Rightarrow> (x, y, z, 1.0))
      in xyz voxelPos4)"

text \<open>
  The body of the marching loop: the new value of \<open>sum\<close> (written \<open>sumv\<close>), and the
  texel the step fetched, if it fetched one. The texture is a function from texel
  coordinates to the red channel.
\<close>

definition march_step ::
    "uniforms \<Rightarrow> (nat \<times> nat \<times> nat \<Rightarrow> real) \<Rightarrow> vec3 \<Rightarrow> vec3 \<Rightarrow> real \<Rightarrow> real
       \<Rightarrow> real \<times> (nat \<times> nat \<times> nat) option" where
  "march_step u volume rayOrigin rayDir t sumv =
     (let voxelPos = voxelPos_at u rayOrigin rayDir t in
      if all_ge voxelPos (vec3f 0.0) \<and> all_le voxelPos (vec3f 1.0) then
        let texCoord = vmul voxelPos (vsub (u_volumeDims u) (vec3f 1.0)) in
        if all_ge texCoord (vec3f 0.0) \<and> all_le texCoord (vsub (u_volumeDims u) (vec3f 1.0)) then
          let d = volume (vec3u texCoord);
              weight = smoothstep (u_thresholdLow u) (u_thresholdHigh u) d
          in (sumv + d * weight * 0.0001, Some (vec3u texCoord))
        else (sumv, None)
      else (sumv, None))"

text \<open>
  The loop \<open>for (var t = 0.0; t < maxDistance; t += stepSize)\<close>, from the current \<open>t\<close>
  and running sum: the final sum and the texels fetched, in order.
\<close>

function march ::
    "uniforms \<Rightarrow> (nat \<times> nat \<times> nat \<Rightarrow> real) \<Rightarrow> vec3 \<Rightarrow> vec3 \<Rightarrow> real \<Rightarrow> real
       \<Rightarrow> real \<times> (nat \<times> nat \<times> nat) list" where
  "march u volume rayOrigin rayDir t sumv =
     (if t < maxDistance then
        let (sumv', fetched) = march_step u volume rayOrigin rayDir t sumv;
            (total, rest) = march u volume rayOrigin rayDir (t + stepSize) sumv'
        in (total, (case fetched of None \<Rightarrow> rest | Some c \<Rightarrow> c # rest))
      else (sumv, []))"
  by pat_completeness auto
termination
proof (relation "measure (\<lambda>(u, volume, rayOrigin, rayDir, t, sumv). nat \<lceil>(maxDistance - t) / stepSize\<rceil>)")
  show "wf (measure (\<lambda>(u, volume, rayOrigin, rayDir, t, sumv). nat \<lceil>(maxDistance - t) / stepSize\<rceil>))"
    by simp
next
  fix u :: uniforms and volume :: "nat \<times> nat \<times> nat \<Rightarrow> real"
    and rayOrigin rayDir :: vec3 and t sumv :: real
    and x :: "real \<times> (nat \<times> nat \<times> nat) option" and xa :: real and y :: "(nat \<times> nat \<times> nat) option"
  assume lt: "t < maxDistance"
  have eq: "(maxDistance - (t + stepSize)) / stepSize = (maxDistance - t) / stepSize - 1"
    by (simp add: stepSize_def field_simps)
  have pos: "0 < (maxDistance - t) / stepSize"
    using lt by (simp add: stepSize_def)
  then have "0 < \<lceil>(maxDistance - t) / stepSize\<rceil>"
    by linarith
  then have "nat \<lceil>(maxDistance - t) / stepSize - 1\<rceil> < nat \<lceil>(maxDistance - t) / stepSize\<rceil>"
    by linarith
  then show "((u, volume, rayOrigin, rayDir, t + stepSize, xa), (u, volume, rayOrigin, rayDir, t, sumv))
      \<in> measure (\<lambda>(u, volume, rayOrigin, rayDir, t, sumv). nat \<lceil>(maxDistance - t) / stepSize\<rceil>)"
    by (simp add: eq)
qed

definition fsMain ::
    "uniforms \<Rightarrow> (nat \<times> nat \<times> nat \<Rightarrow> real) \<Rightarrow> vec3 \<Rightarrow> vec3 \<Rightarrow> vec4" where
  "fsMain u volume rayOrigin rayDir =
     (let sumv = fst (march u volume rayOrigin rayDir 0.0 0.0) in (sumv, sumv, sumv, 1.0))"

section \<open>Notions used by the properties\<close>

subsection \<open>Camera, kernel and uniform data\<close>

text \<open>The clamped ranges of the elevation and the radius.\<close>

definition cam_ok :: "camera \<Rightarrow> bool" where
  "cam_ok c \<longleftrightarrow>
     0.05 \<le> cameraPhi c \<and> cameraPhi c \<le> pi - 0.05 \<and> 0.5 \<le> cameraRadius c \<and> cameraRadius c \<le> 10.0"

text \<open>A mapped position with some coordinate below 0 or above 1.\<close>

fun outside_unit_cube :: "vec3 \<Rightarrow> bool" where
  "outside_unit_cube (x, y, z) \<longleftrightarrow> x < 0 \<or> 1 < x \<or> y < 0 \<or> 1 < y \<or> z < 0 \<or> 1 < z"

text \<open>A texel coordinate within \<open>[0, dims - 1]\<close> on every axis.\<close>

fun texel_in_range :: "vec3 \<Rightarrow> nat \<times> nat \<times> nat \<Rightarrow> bool" where
  "texel_in_range (dx, dy, dz) (x, y, z) \<longleftrightarrow>
     0 \<le> real x \<and> real x \<le> dx - 1 \<and> 0 \<le> real y \<and> real y \<le> dy - 1 \<and> 0 \<le> real z \<and> real z \<le> dz - 1"

text \<open>A typed array of 32-bit floats: four bytes to the slot.\<close>

definition byteLength :: "jsnum list \<Rightarrow> nat" where
  "byteLength u = 4 * length u"

text \<open>The slots that the bytes from \<open>byteOffset\<close> on, \<open>byteSize\<close> of them, make up.\<close>

definition field_at :: "nat \<Rightarrow> nat \<Rightarrow> jsnum list \<Rightarrow> jsnum list" where
  "field_at byteOffset byteSize u = take (byteSize div 4) (drop (byteOffset div 4) u)"

text \<open>Sample inputs of the kernel: the identity for both matrices, a volume of 2 x 2 x 2.\<close>

definition uniforms0 :: uniforms where
  "uniforms0 =
     \<lparr>u_invAffine = ((1, 0, 0, 0), (0, 1, 0, 0), (0, 0, 1, 0), (0, 0, 0, 1)),
      u_invViewProj = ((1, 0, 0, 0), (0, 1, 0, 0), (0, 0, 1, 0), (0, 0, 0, 1)),
      u_volumeDims = (2, 2, 2), u_thresholdLow = 0, u_thresholdHigh = 1\<rparr>"

text \<open>
  A stand-in for the matrix library in closed examples: every matrix it builds is zero,
  and \<open>invert\<close> gives \<open>null\<close>, which is what the library gives for a matrix whose
  determinant is zero or NaN.
\<close>

definition gl_sample :: glmatrix where
  "gl_sample =
     \<lparr>perspective = (\<lambda>fovy aspect near far. replicate 16 (Num 0)),
      lookAt = (\<lambda>eye center up. replicate 16 (Num 0)),
      multiply = (\<lambda>a b. replicate 16 (Num 0)),
      invert = (\<lambda>a. None)\<rparr>"

subsection \<open>Sections of a text\<close>

text \<open>The pieces joined by a separator: the inverse of \<open>split_on\<close>.\<close>

fun unsplit :: "char \<Rightarrow> string list \<Rightarrow> string" where
  "unsplit sep [] = []"
| "unsplit sep [t] = t"
| "unsplit sep (t # u # ts) = t @ sep # unsplit sep (u # ts)"

text \<open>
  The lines that belong to the section \<open>name\<close>: those that follow a line starting with
  \<open>--\<close> whose trimmed form is \<open>name\<close>, up to the next line starting with \<open>--\<close>.
  \<open>cur\<close> is the section in force at the first line.
\<close>

fun lines_in :: "string \<Rightarrow> string option \<Rightarrow> string list \<Rightarrow> string list" where
  "lines_in name cur [] = []"
| "lines_in name cur (l # ls) =
     (if startsWith l ''--'' then lines_in name (Some (js_trim l)) ls
      else if cur = Some name then l # lines_in name cur ls
      else lines_in name cur ls)"

text \<open>A text has the section \<open>name\<close> when one of its lines is the marker of that section.\<close>

definition has_section :: "string \<Rightarrow> string \<Rightarrow> bool" where
  "has_section name text =
     list_ex (\<lambda>l. startsWith l ''--'' \<and> js_trim l = name) (split_on CHR 0x0A text)"

subsection \<open>The sectioned text form in the words of the specification\<close>

text \<open>
  The specification has the tokens of a section delimited by white space: they are the
  maximal runs of characters other than white space in the lines of the section, taken
  together. \<open>spec_values\<close> is the numbers that a section holds under this reading.
\<close>

fun split_ws :: "string \<Rightarrow> string list" where
  "split_ws [] = [[]]"
| "split_ws (c # cs) =
     (let r = split_ws cs in if is_ws c then [] # r else (c # hd r) # tl r)"

definition spec_tokens :: "string \<Rightarrow> string list" where
  "spec_tokens s = filter (\<lambda>t. t \<noteq> []) (split_ws s)"

definition spec_values :: "string \<Rightarrow> string \<Rightarrow> jsnum list" where
  "spec_values name text =
     map js_Number (concat (map spec_tokens (lines_in name None (split_on CHR 0x0A text))))"

subsection \<open>Strictly laid-out sectioned texts\<close>

text \<open>
  A narrower class of texts than the specification's, on which the code reads the
  tokens that the specification means. A line is strict when, trimmed, it splits at
  single spaces into pieces that are not empty and hold no white space: its tokens
  are separated by exactly one space. A line is blank when it holds white space only.
\<close>

definition plain_tok :: "string \<Rightarrow> bool" where
  "plain_tok t \<longleftrightarrow> t \<noteq> [] \<and> list_all (\<lambda>c. \<not> is_ws c) t"

definition strict_line :: "string \<Rightarrow> bool" where
  "strict_line l \<longleftrightarrow> list_all plain_tok (split_on CHR '' '' (js_trim l))"

definition blank_line :: "string \<Rightarrow> bool" where
  "blank_line l \<longleftrightarrow> list_all is_ws l"

text \<open>The lines of a section without the blank lines at its start and at its end.\<close>

definition trim_blank :: "string list \<Rightarrow> string list" where
  "trim_blank ls = rev (dropWhile blank_line (rev (dropWhile blank_line ls)))"

text \<open>
  A text is strictly laid out when every line of its header and affine sections is
  strict, and the lines of its voxel section, blank lines at the start and the end
  apart, are strict and at least one. The sections may come in any order, and lines
  outside the three sections are free.
\<close>

definition strict_text :: "string \<Rightarrow> bool" where
  "strict_text text \<longleftrightarrow>
     (let ls = split_on CHR 0x0A text;
          vs = trim_blank (lines_in ''--voxel--'' None ls)
      in list_all strict_line (lines_in ''--header--'' None ls)
         \<and> list_all strict_line (lines_in ''--affine--'' None ls)
         \<and> vs \<noteq> [] \<and> list_all strict_line vs)"

subsection \<open>Structured documents of a volume\<close>

text \<open>
  The document of a volume: the shape as an array of numbers, the affine matrix as an
  array of rows, the voxel values as an array of planes of rows.
\<close>

definition json_vector :: "jsnum list \<Rightarrow> jsval" where
  "json_vector xs = JArr (map JNum xs)"

definition json_matrix :: "jsnum list list \<Rightarrow> jsval" where
  "json_matrix rows = JArr (map json_vector rows)"

definition json_grid :: "jsnum list list list \<Rightarrow> jsval" where
  "json_grid planes = JArr (map json_matrix planes)"

definition formB_doc :: "jsnum list \<Rightarrow> jsnum list list \<Rightarrow> jsnum list list list \<Rightarrow> json_doc" where
  "formB_doc shp aff vox =
     \<lparr>voxel_data = json_grid vox, json_shape = json_vector shp, json_affine = json_matrix aff\<rparr>"

subsection \<open>The determinant of the affine matrix\<close>

text \<open>
  The operators \<open>+\<close> and \<open>-\<close> on numbers: infinities of opposite sign add to NaN; a
  sum that is zero is the positive zero unless both operands are the negative zero.
\<close>

definition jadd :: "jsnum \<Rightarrow> jsnum \<Rightarrow> jsnum" where
  "jadd x y =
     (if x = NaN \<or> y = NaN then NaN
      else if is_inf x \<and> is_inf y then (if x = y then x else NaN)
      else if is_inf x then x
      else if is_inf y then y
      else if fin_val x + fin_val y = 0 then (if x = NegZero \<and> y = NegZero then NegZero else Num 0)
      else Num (fin_val x + fin_val y))"

definition jsub :: "jsnum \<Rightarrow> jsnum \<Rightarrow> jsnum" where
  "jsub x y = jadd x (jneg y)"

text \<open>\<open>a[i]\<close> on a typed array, as an operand of arithmetic: NaN out of range.\<close>

definition ta_get :: "jsnum list \<Rightarrow> nat \<Rightarrow> jsnum" where
  "ta_get a i = (if i < length a then a ! i else NaN)"

text \<open>
  The determinant of the 4 x 4 matrix held in the 16 slots of \<open>a\<close>, by the expansion
  into 2 x 2 minors of the first two and the last two rows.
\<close>

definition determinant :: "jsnum list \<Rightarrow> jsnum" where
  "determinant a =
     (let a00 = ta_get a 0; a01 = ta_get a 1; a02 = ta_get a 2; a03 = ta_get a 3;
          a10 = ta_get a 4; a11 = ta_get a 5; a12 = ta_get a 6; a13 = ta_get a 7;
          a20 = ta_get a 8; a21 = ta_get a 9; a22 = ta_get a 10; a23 = ta_get a 11;
          a30 = ta_get a 12; a31 = ta_get a 13; a32 = ta_get a 14; a33 = ta_get a 15;
          b00 = jsub (jmul a00 a11) (jmul a01 a10);
          b01 = jsub (jmul a00 a12) (jmul a02 a10);
          b02 = jsub (jmul a00 a13) (jmul a03 a10);
          b03 = jsub (jmul a01 a12) (jmul a02 a11);
          b04 = jsub (jmul a01 a13) (jmul a03 a11);
          b05 = jsub (jmul a02 a13) (jmul a03 a12);
          b06 = jsub (jmul a20 a31) (jmul a21 a30);
          b07 = jsub (jmul a20 a32) (jmul a22 a30);
          b08 = jsub (jmul a20 a33) (jmul a23 a30);
          b09 = jsub (jmul a21 a32) (jmul a22 a31);
          b10 = jsub (jmul a21 a33) (jmul a23 a31);
          b11 = jsub (jmul a22 a33) (jmul a23 a32)
      in jadd (jsub (jadd (jadd (jsub (jmul b00 b11) (jmul b01 b10)) (jmul b02 b09))
                      (jmul b03 b08)) (jmul b04 b07)) (jmul b05 b06))"

subsection \<open>Sample inputs\<close>

text \<open>
  A strictly laid-out text of shape 1 x 2 x 3: a carriage return before every line
  feed, a line before the first section, the header after the affine section, a blank
  line at the start of the voxel section, indented voxel lines, a negative zero among
  the voxels, and a final line feed.
\<close>

definition text_crlf :: string where
  "text_crlf =
     unsplit CHR 0x0A
       (map (\<lambda>l. l @ [CHR 0x0D])
          [''# volume'', ''--affine--'', ''1 0 0 0'', ''0 1 0 0'', ''0 0 1 0'', ''0 0 0 1'',
           ''--header--'', ''1 2 3'', ''--voxel--'', [], '' 0.5 2 3'', '' 4 -0 -6e1'']
        @ [[]])"

text \<open>A text and a document of shape 1 x 2 x 3 with the identity as affine matrix.\<close>

definition sample_text :: string where
  "sample_text =
     ''--header--\<newline>1 2 3\<newline>--affine--\<newline>1 0 0 0\<newline>0 1 0 0\<newline>0 0 1 0\<newline>0 0 0 1\<newline>--voxel--\<newline>1 2 3\<newline>4 5 6''"

definition sample_doc :: json_doc where
  "sample_doc =
     \<lparr>voxel_data = json_grid [[[Num 1, Num 2, Num 3], [Num 4, Num 5, Num 6]]],
      json_shape = json_vector [Num 1, Num 2, Num 3],
      json_affine = json_matrix [[Num 1, Num 0, Num 0, Num 0], [Num 0, Num 1, Num 0, Num 0],
                                 [Num 0, Num 0, Num 1, Num 0], [Num 0, Num 0, Num 0, Num 1]]\<rparr>"

text \<open>Two texts with no affine section.\<close>

definition text_no_affine :: string where
  "text_no_affine = ''--header--\<newline>1 1 1\<newline>--voxel--\<newline>5''"

definition text_no_affine2 :: string where
  "text_no_affine2 = ''--header--\<newline>2 1 1\<newline>--voxel--\<newline>5 7\<newline>''"

text \<open>Two texts whose affine matrix has determinant zero: all zeros, and all ones.\<close>

definition text_singular :: string where
  "text_singular =
     ''--header--\<newline>1 1 1\<newline>--affine--\<newline>0 0 0 0\<newline>0 0 0 0\<newline>0 0 0 0\<newline>0 0 0 0\<newline>--voxel--\<newline>5''"

definition text_singular2 :: string where
  "text_singular2 =
     ''--header--\<newline>1 1 1\<newline>--affine--\<newline>1 1 1 1\<newline>1 1 1 1\<newline>1 1 1 1\<newline>1 1 1 1\<newline>--voxel--\<newline>5''"

text \<open>
  Two texts of shape 1 x 1 x 2 with the identity as affine matrix and the voxels 1 and
  2: in the first the two voxels are separated by two spaces, in the second a blank line
  ends the affine section.
\<close>

definition text_double_space :: string where
  "text_double_space =
     ''--header--\<newline>1 1 2\<newline>--affine--\<newline>1 0 0 0\<newline>0 1 0 0\<newline>0 0 1 0\<newline>0 0 0 1\<newline>--voxel--\<newline>1  2''"

definition text_blank_line :: string where
  "text_blank_line =
     ''--header--\<newline>1 1 2\<newline>--affine--\<newline>1 0 0 0\<newline>0 1 0 0\<newline>0 0 1 0\<newline>0 0 0 1\<newline>\<newline>--voxel--\<newline>1 2''"

definition identity_rows :: "jsnum list list" where
  "identity_rows =
     [[Num 1, Num 0, Num 0, Num 0], [Num 0, Num 1, Num 0, Num 0],
      [Num 0, Num 0, Num 1, Num 0], [Num 0, Num 0, Num 0, Num 1]]"

text \<open>A text with one header value, a token that is no numeric literal, and no voxel section.\<close>

definition text_nonnumeric :: string where
  "text_nonnumeric = ''--header--\<newline>7\<newline>--affine--\<newline>abc 1''"

section \<open>The camera clamps\<close>

lemma phi_clamp:
  "0.05 \<le> max 0.05 (min (pi - 0.05) x) \<and> max 0.05 (min (pi - 0.05) x) \<le> pi - 0.05"
  using pi_ge_two by (auto simp: max_def min_def)

lemma radius_clamp:
  "0.5 \<le> max 0.5 (min 10.0 (x::real)) \<and> max 0.5 (min 10.0 x) \<le> 10.0"
  by (auto simp: max_def min_def)

lemma handle_phi:
  "cameraPhi (handle c e) = cameraPhi c
   \<or> (\<exists>x. cameraPhi (handle c e) = max 0.05 (min (pi - 0.05) x))"
proof (cases e)
  case (MouseMove clientX clientY)
  show ?thesis
  proof (cases "dragging c")
    case True
    have "cameraPhi (handle c e)
        = max 0.05 (min (pi - 0.05) (cameraPhi c - (clientY - lastY c) * 0.005))"
      unfolding MouseMove using True by (simp add: Let_def)
    then show ?thesis by blast
  next
    case False
    then show ?thesis unfolding MouseMove by simp
  qed
qed (simp_all add: Let_def)

lemma handle_radius:
  "cameraRadius (handle c e) = cameraRadius c
   \<or> (\<exists>x. cameraRadius (handle c e) = max 0.5 (min 10.0 x))"
proof (cases e)
  case (Wheel deltaY)
  have "cameraRadius (handle c e) = max 0.5 (min 10.0 (cameraRadius c * (1 + deltaY * 0.001)))"
    unfolding Wheel by (simp add: Let_def)
  then show ?thesis by blast
qed (simp_all add: Let_def)

lemma cam_ok_init: "cam_ok camera_init"
  using pi_ge_two by (simp add: cam_ok_def camera_init_def)

lemma cam_ok_handle:
  assumes "cam_ok c"
  shows "cam_ok (handle c e)"
proof -
  have "0.05 \<le> cameraPhi (handle c e) \<and> cameraPhi (handle c e) \<le> pi - 0.05"
    using handle_phi [of c e] phi_clamp assms unfolding cam_ok_def by metis
  moreover have "0.5 \<le> cameraRadius (handle c e) \<and> cameraRadius (handle c e) \<le> 10.0"
    using handle_radius [of c e] radius_clamp assms unfolding cam_ok_def by metis
  ultimately show ?thesis unfolding cam_ok_def by blast
qed

lemma cam_ok_handle_all: "cam_ok c \<Longrightarrow> cam_ok (handle_all c evs)"
  unfolding handle_all_def by (induction evs arbitrary: c) (simp_all add: cam_ok_handle)

text \<open>
  C5. For every finite sequence of pointer and wheel events applied to the initial camera
  state, the state after each event of the sequence (after the first \<open>n\<close> events, for
  every \<open>n\<close>) has its elevation in \<open>[0.05, pi - 0.05]\<close> and its radius in \<open>[0.5, 10]\<close>.
\<close>

theorem camera_clamps: "cam_ok (handle_all camera_init (take n evs))"
  by (rule cam_ok_handle_all [OF cam_ok_init])

section \<open>The marching loop\<close>

text \<open>
  C6. A marching step (one with \<open>t\<close> below the maximum distance) whose mapped position
  has some coordinate below 0 or above 1 leaves \<open>sum\<close> as it was and fetches no texel:
  the loop goes on from the next \<open>t\<close> with the same \<open>sum\<close>.
\<close>

theorem outside_contributes_nothing:
  assumes "outside_unit_cube (voxelPos_at u rayOrigin rayDir t)" and "t < maxDistance"
  shows "march_step u volume rayOrigin rayDir t sumv = (sumv, None)
       \<and> march u volume rayOrigin rayDir t sumv
         = march u volume rayOrigin rayDir (t + stepSize) sumv"
proof -
  obtain x y z where p: "voxelPos_at u rayOrigin rayDir t = (x, y, z)"
    by (cases "voxelPos_at u rayOrigin rayDir t") auto
  with assms(1) have s: "march_step u volume rayOrigin rayDir t sumv = (sumv, None)"
    by (auto simp: march_step_def vec3f_def)
  have "march u volume rayOrigin rayDir t sumv
      = march u volume rayOrigin rayDir (t + stepSize) sumv"
    by (subst march.simps) (simp add: assms(2) s split: prod.splits del: march.simps)
  with s show ?thesis by blast
qed

theorem outside_contributes_nothing_witness:
  "outside_unit_cube (voxelPos_at uniforms0 (2, 0, 0) (1, 0, 0) 0)
   \<and> (0::real) < maxDistance
   \<and> march_step uniforms0 (\<lambda>c. 1) (2, 0, 0) (1, 0, 0) 0 7 = (7, None)
   \<and> march uniforms0 (\<lambda>c. 1) (2, 0, 0) (1, 0, 0) 0 7
       = march uniforms0 (\<lambda>c. 1) (2, 0, 0) (1, 0, 0) (0 + stepSize) 7"
proof -
  have h: "outside_unit_cube (voxelPos_at uniforms0 (2, 0, 0) (1, 0, 0) 0)"
    by (simp add: voxelPos_at_def uniforms0_def)
  have l: "(0::real) < maxDistance" by (simp add: maxDistance_def)
  from outside_contributes_nothing [OF h l] h l show ?thesis by blast
qed

lemma to_u32_le:
  assumes "0 \<le> x"
  shows "real (to_u32 x) \<le> x"
proof -
  have "real (to_u32 x) \<le> real (nat \<lfloor>x\<rfloor>)"
    by (simp add: to_u32_def)
  also have "\<dots> \<le> x" using assms by simp
  finally show ?thesis .
qed

lemma march_step_fetch:
  assumes "march_step u volume rayOrigin rayDir t sumv = (s', Some c)"
  shows "texel_in_range (u_volumeDims u) c"
proof -
  obtain x y z where p: "voxelPos_at u rayOrigin rayDir t = (x, y, z)"
    by (cases "voxelPos_at u rayOrigin rayDir t") auto
  obtain dx dy dz where d: "u_volumeDims u = (dx, dy, dz)"
    by (cases "u_volumeDims u") auto
  from assms p d show ?thesis
    by (auto simp: march_step_def vec3f_def Let_def split: if_splits
             intro: order_trans [OF to_u32_le])
qed

lemma march_fetches:
  "c \<in> set (snd (march u volume rayOrigin rayDir t sumv)) \<Longrightarrow> texel_in_range (u_volumeDims u) c"
proof (induction u volume rayOrigin rayDir t sumv rule: march.induct)
  case (1 u volume rayOrigin rayDir t sumv)
  show ?case
  proof (cases "t < maxDistance")
    case False
    with "1.prems" show ?thesis by simp
  next
    case True
    obtain s' f where st: "march_step u volume rayOrigin rayDir t sumv = (s', f)"
      by (cases "march_step u volume rayOrigin rayDir t sumv") auto
    obtain tot rest where m: "march u volume rayOrigin rayDir (t + stepSize) s' = (tot, rest)"
      by (cases "march u volume rayOrigin rayDir (t + stepSize) s'") auto
    have ih: "c \<in> set rest \<Longrightarrow> texel_in_range (u_volumeDims u) c"
      using "1.IH" [OF True st [symmetric] refl] m by simp
    from "1.prems" True st m have "c \<in> set (case f of None \<Rightarrow> rest | Some c' \<Rightarrow> c' # rest)"
      by (simp del: march.simps add: march.simps [of u volume rayOrigin rayDir t sumv])
    then show ?thesis
      using ih march_step_fetch [of u volume rayOrigin rayDir t sumv s'] st
      by (cases f) auto
  qed
qed

lemma march_last_step:
  "march uniforms0 (\<lambda>c. 1) (0, 0.5, 0.5) (0.25, 0, 0) 1.995 0 = (0.0001, [(0, 0, 0)])"
  apply (subst march.simps)
  apply (simp add: maxDistance_def stepSize_def march_step_def voxelPos_at_def uniforms0_def
      vec3f_def smoothstep_def to_u32_def)
  done

text \<open>
  C7. Every texel that the marching loop fetches, from any \<open>t\<close> and for any uniform
  values, lies within \<open>[0, dims - 1]\<close> on every axis.
\<close>

theorem fetches_in_range:
  assumes "c \<in> set (snd (march u volume rayOrigin rayDir t sumv))"
  shows "texel_in_range (u_volumeDims u) c"
  using assms by (rule march_fetches)

theorem fetches_in_range_witness:
  "(0, 0, 0) \<in> set (snd (march uniforms0 (\<lambda>c. 1) (0, 0.5, 0.5) (0.25, 0, 0) 1.995 0))
   \<and> texel_in_range (u_volumeDims uniforms0) (0, 0, 0)"
proof -
  have h: "(0, 0, 0) \<in> set (snd (march uniforms0 (\<lambda>c. 1) (0, 0.5, 0.5) (0.25, 0, 0) 1.995 0))"
    by (simp only: march_last_step snd_conv list.set insertI1)
  from fetches_in_range [OF h] h show ?thesis by blast
qed

section \<open>The uniform data of a frame\<close>

lemma pack_uniforms_layout:
  assumes "length invAffine = 16" and "length invViewProj = 16" and "length dims' = 3"
  shows "pack_uniforms (Some invAffine) (Some invViewProj) dims' low high =
     Inr (invAffine @ invViewProj @ map ToNumber dims' @ [low, high, Num 0, Num 0, Num 0])"
proof -
  have r: "replicate 40 (Num 0) =
      replicate 16 (Num 0) @ replicate 16 (Num 0) @ replicate 3 (Num 0) @ replicate 5 (Num 0)"
    by (simp add: replicate_add [symmetric])
  show ?thesis using assms
    apply (simp add: pack_uniforms_def ta_set_def uniformBufferSize_def r)
    apply (simp add: list_update_append numeral_eq_Suc)
    done
qed

text \<open>
  C2. For matrices of 16 entries and a dims triple, the uniform data of a frame is a
  buffer of 160 bytes, the size of the uniform buffer, with \<open>invAffine\<close> at byte 0,
  \<open>invViewProj\<close> at byte 64, the dims at byte 128, \<open>low\<close> at byte 140 and \<open>high\<close> at
  byte 144.
\<close>

theorem uniform_layout:
  assumes "length invAffine = 16" and "length invViewProj = 16" and "length dims' = 3"
  shows "case pack_uniforms (Some invAffine) (Some invViewProj) dims' low high of
           Inl e \<Rightarrow> False
         | Inr u \<Rightarrow>
             byteLength u = 160 \<and> byteLength u = uniformBufferSize
             \<and> field_at 0 64 u = invAffine
             \<and> field_at 64 64 u = invViewProj
             \<and> field_at 128 12 u = map ToNumber dims'
             \<and> field_at 140 4 u = [low]
             \<and> field_at 144 4 u = [high]"
  using assms
  by (simp add: pack_uniforms_layout byteLength_def field_at_def uniformBufferSize_def)

theorem uniform_layout_witness:
  "pack_uniforms (Some (replicate 16 (Num 1))) (Some (replicate 16 (Num 2)))
       [JNum (Num 3), JNum (Num 4), JNum (Num 5)] (Num 6) (Num 7)
     = Inr (replicate 16 (Num 1) @ replicate 16 (Num 2)
            @ [Num 3, Num 4, Num 5, Num 6, Num 7, Num 0, Num 0, Num 0])"
proof -
  have "case pack_uniforms (Some (replicate 16 (Num 1))) (Some (replicate 16 (Num 2)))
            [JNum (Num 3), JNum (Num 4), JNum (Num 5)] (Num 6) (Num 7) of
          Inl e \<Rightarrow> False
        | Inr u \<Rightarrow>
            byteLength u = 160 \<and> byteLength u = uniformBufferSize
            \<and> field_at 0 64 u = replicate 16 (Num 1)
            \<and> field_at 64 64 u = replicate 16 (Num 2)
            \<and> field_at 128 12 u = map ToNumber [JNum (Num 3), JNum (Num 4), JNum (Num 5)]
            \<and> field_at 140 4 u = [Num 6]
            \<and> field_at 144 4 u = [Num 7]"
    by (rule uniform_layout) simp_all
  then show ?thesis
    by (simp add: pack_uniforms_layout)
qed

section \<open>Re-deriving the camera matrices\<close>

text \<open>
  C8. The matrices derived from two camera states that agree on the azimuth, the
  elevation, the radius and the target, for the same aspect ratio, are the same; and
  a frame leaves the camera and the canvas as they were, so that the matrices derived
  after a frame are those derived before it.
\<close>

theorem matrices_rederived:
  assumes "cameraTheta c' = cameraTheta c" and "cameraPhi c' = cameraPhi c"
    and "cameraRadius c' = cameraRadius c" and "cameraTarget c' = cameraTarget c"
  shows "deriveMatrices gl c' aspect = deriveMatrices gl c aspect
       \<and> deriveMatrices gl (cam (snd (render gl affine' dims' low high a)))
             (aspect_of (snd (render gl affine' dims' low high a)))
           = deriveMatrices gl (cam a) (aspect_of a)"
proof -
  have "deriveMatrices gl c' aspect = deriveMatrices gl c aspect"
    unfolding deriveMatrices_def assms ..
  moreover have "snd (render gl affine' dims' low high a) = a"
    by (simp add: render_def split: prod.splits sum.splits)
  ultimately show ?thesis by simp
qed

theorem matrices_rederived_witness:
  "cameraTheta (handle camera_init (MouseDown 3 4)) = cameraTheta camera_init
   \<and> cameraPhi (handle camera_init (MouseDown 3 4)) = cameraPhi camera_init
   \<and> cameraRadius (handle camera_init (MouseDown 3 4)) = cameraRadius camera_init
   \<and> cameraTarget (handle camera_init (MouseDown 3 4)) = cameraTarget camera_init
   \<and> handle camera_init (MouseDown 3 4) \<noteq> camera_init
   \<and> deriveMatrices gl_sample (handle camera_init (MouseDown 3 4)) (Num 1)
       = deriveMatrices gl_sample camera_init (Num 1)"
proof -
  have h: "cameraTheta (handle camera_init (MouseDown 3 4)) = cameraTheta camera_init"
    "cameraPhi (handle camera_init (MouseDown 3 4)) = cameraPhi camera_init"
    "cameraRadius (handle camera_init (MouseDown 3 4)) = cameraRadius camera_init"
    "cameraTarget (handle camera_init (MouseDown 3 4)) = cameraTarget camera_init"
    by simp_all
  have d: "dragging (handle camera_init (MouseDown 3 4)) \<noteq> dragging camera_init"
    by (simp add: camera_init_def)
  then have n: "handle camera_init (MouseDown 3 4) \<noteq> camera_init" by metis
  from matrices_rederived [OF h, of gl_sample "Num 1" "[]" "[]" "Num 0" "Num 1"
      "\<lparr>cam = camera_init, canvas_width = 800, canvas_height = 600\<rparr>"] h n
  show ?thesis by blast
qed

section \<open>Strings and lines\<close>

lemma split_on_not_Nil [simp]: "split_on sep s \<noteq> []"
  by (induction s) (auto simp: Let_def)

lemma split_on_no_sep: "sep \<notin> set t \<Longrightarrow> split_on sep t = [t]"
  by (induction t) (auto simp: Let_def)

lemma split_on_append_sep:
  "sep \<notin> set t \<Longrightarrow> split_on sep (t @ sep # r) = t # split_on sep r"
  by (induction t) (auto simp: Let_def)

lemma split_unsplit:
  "ts \<noteq> [] \<Longrightarrow> \<forall>t \<in> set ts. sep \<notin> set t \<Longrightarrow> split_on sep (unsplit sep ts) = ts"
  by (induction sep ts rule: unsplit.induct) (auto simp: split_on_no_sep split_on_append_sep)

lemma dropWhile_keep: "s \<noteq> [] \<Longrightarrow> \<not> P (hd s) \<Longrightarrow> dropWhile P s = s"
  by (cases s) auto

lemma dropWhile_all_append: "\<forall>x \<in> set xs. P x \<Longrightarrow> dropWhile P (xs @ ys) = dropWhile P ys"
  by (induction xs) auto

lemma js_trim_padded:
  assumes "\<forall>c \<in> set lp. is_ws c" and "\<forall>c \<in> set rp. is_ws c"
    and "s \<noteq> []" and "\<not> is_ws (hd s)" and "\<not> is_ws (last s)"
  shows "js_trim (lp @ s @ rp) = s"
proof -
  have 1: "dropWhile is_ws (lp @ s @ rp) = s @ rp"
    using assms by (simp add: dropWhile_all_append dropWhile_keep)
  have "\<forall>c \<in> set (rev rp). is_ws c" using assms(2) by simp
  then have "dropWhile is_ws (rev rp @ rev s) = dropWhile is_ws (rev s)"
    by (rule dropWhile_all_append)
  also have "\<dots> = rev s"
    using assms by (intro dropWhile_keep) (simp_all add: hd_rev)
  finally have 2: "dropWhile is_ws (rev rp @ rev s) = rev s" .
  show ?thesis by (simp add: js_trim_def 1 2)
qed

lemma js_trim_ws:
  assumes "\<forall>c \<in> set p. is_ws c"
  shows "js_trim p = []"
proof -
  have e: "dropWhile is_ws p = []" using assms by (simp add: dropWhile_eq_Nil_conv)
  show ?thesis by (simp add: js_trim_def e)
qed

lemma parse_line_section:
  "cur_section (parse_line st l) = (if startsWith l ''--'' then Some (js_trim l) else cur_section st)"
  by (simp add: parse_line_def)

lemma parse_line_shape:
  "shape (parse_line st l) =
     (if \<not> startsWith l ''--'' \<and> cur_section st = Some ''--header--''
      then shape st @ line_numbers l else shape st)"
  by (simp add: parse_line_def)

lemma parse_line_affineValues:
  "affineValues (parse_line st l) =
     (if \<not> startsWith l ''--'' \<and> cur_section st = Some ''--affine--''
      then affineValues st @ line_numbers l else affineValues st)"
  by (simp add: parse_line_def)

lemma parse_line_voxelLine:
  "voxelLine (parse_line st l) =
     (if \<not> startsWith l ''--'' \<and> cur_section st = Some ''--voxel--''
      then voxelLine st @ js_trim l @ '' '' else voxelLine st)"
  by (simp add: parse_line_def)

lemma fold_shape:
  "shape (foldl parse_line st ls)
     = shape st @ concat (map line_numbers (lines_in ''--header--'' (cur_section st) ls))"
  by (induction ls arbitrary: st) (simp_all add: parse_line_section parse_line_shape)

lemma fold_affineValues:
  "affineValues (foldl parse_line st ls)
     = affineValues st @ concat (map line_numbers (lines_in ''--affine--'' (cur_section st) ls))"
  by (induction ls arbitrary: st) (simp_all add: parse_line_section parse_line_affineValues)

lemma fold_voxelLine:
  "voxelLine (foldl parse_line st ls)
     = voxelLine st @ concat (map (\<lambda>l. js_trim l @ '' '') (lines_in ''--voxel--'' (cur_section st) ls))"
  by (induction ls arbitrary: st) (simp_all add: parse_line_section parse_line_voxelLine)

lemma parseVoxelTxt_by_sections:
  "parseVoxelTxt text =
     (let ls = split_on CHR 0x0A text;
          sh = concat (map line_numbers (lines_in ''--header--'' None ls))
      in \<lparr>voxel = Float32Array (line_numbers
              (concat (map (\<lambda>l. js_trim l @ '' '') (lines_in ''--voxel--'' None ls)))),
          dims = [idx sh 1, idx sh 2, idx sh 0],
          affine = Float32Array (concat (map line_numbers (lines_in ''--affine--'' None ls)))\<rparr>)"
  by (simp add: parseVoxelTxt_def Let_def fold_shape fold_affineValues fold_voxelLine pstate_init_def)

lemma lines_in_absent:
  "cur \<noteq> Some name \<Longrightarrow> \<not> list_ex (\<lambda>l. startsWith l ''--'' \<and> js_trim l = name) ls
     \<Longrightarrow> lines_in name cur ls = []"
  by (induction ls arbitrary: cur) auto


lemma is_ws_newline: "is_ws (CHR 0x0A)" and is_ws_space: "is_ws (CHR '' '')"
  and not_ws_dash: "\<not> is_ws (CHR ''-'')"
  by (simp_all add: is_ws_def)

lemma hd_unsplit: "ts \<noteq> [] \<Longrightarrow> hd ts \<noteq> [] \<Longrightarrow> hd (unsplit sep ts) = hd (hd ts)"
  by (induction sep ts rule: unsplit.induct) auto

lemma unsplit_eq_Nil: "unsplit sep ts = [] \<longleftrightarrow> ts = [] \<or> ts = [[]]"
  by (induction sep ts rule: unsplit.induct) auto

lemma last_unsplit: "ts \<noteq> [] \<Longrightarrow> last ts \<noteq> [] \<Longrightarrow> last (unsplit sep ts) = last (last ts)"
  by (induction sep ts rule: unsplit.induct) (auto simp: unsplit_eq_Nil)

lemma unsplit_not_Nil: "ts \<noteq> [] \<Longrightarrow> hd ts \<noteq> [] \<Longrightarrow> unsplit sep ts \<noteq> []"
  by (induction sep ts rule: unsplit.induct) auto

lemma unsplit_append:
  "ts \<noteq> [] \<Longrightarrow> us \<noteq> [] \<Longrightarrow> unsplit sep (ts @ us) = unsplit sep ts @ sep # unsplit sep us"
  by (induction sep ts rule: unsplit.induct) (auto simp: neq_Nil_conv)

lemma unsplit_concat:
  "tss \<noteq> [] \<Longrightarrow> \<forall>ts \<in> set tss. ts \<noteq> []
     \<Longrightarrow> concat (map (\<lambda>ts. unsplit sep ts @ [sep]) tss) = unsplit sep (concat tss) @ [sep]"
proof (induction tss)
  case Nil
  then show ?case by simp
next
  case (Cons ts tss)
  show ?case
  proof (cases "tss = []")
    case True
    then show ?thesis by simp
  next
    case False
    then have "concat tss \<noteq> []" using Cons.prems by (cases tss) auto
    then show ?thesis using Cons False by (simp add: unsplit_append)
  qed
qed

lemma split_ws_not_Nil [simp]: "split_ws s \<noteq> []"
  by (induction s) (auto simp: Let_def)

lemma spec_tokens_ws:
  "\<forall>c \<in> set p. is_ws c \<Longrightarrow> spec_tokens (p @ r) = spec_tokens r"
  by (induction p) (auto simp: spec_tokens_def Let_def)

lemma spec_tokens_blank: "\<forall>c \<in> set p. is_ws c \<Longrightarrow> spec_tokens p = []"
  using spec_tokens_ws [of p "[]"] by (simp add: spec_tokens_def)

lemma split_ws_token:
  "\<forall>c \<in> set t. \<not> is_ws c \<Longrightarrow> is_ws d \<Longrightarrow> split_ws (t @ d # r) = t # split_ws r"
  by (induction t) (auto simp: Let_def)

lemma split_ws_last: "\<forall>c \<in> set t. \<not> is_ws c \<Longrightarrow> split_ws t = [t]"
  by (induction t) (auto simp: Let_def)

lemma spec_tokens_token:
  assumes "t \<noteq> []" and "\<forall>c \<in> set t. \<not> is_ws c" and "is_ws d"
  shows "spec_tokens (t @ d # r) = t # spec_tokens r"
  using assms by (simp add: spec_tokens_def split_ws_token)

lemma spec_tokens_last:
  assumes "t \<noteq> []" and "\<forall>c \<in> set t. \<not> is_ws c"
  shows "spec_tokens t = [t]"
  using assms by (simp add: spec_tokens_def split_ws_last)

subsection \<open>Structured documents\<close>

lemma flat_numbers: "flat d (map JNum xs) = map JNum xs"
  by (induction xs) auto

lemma flat_arrays: "flat (Suc d) (map (\<lambda>r. JArr (g r)) xs) = concat (map (\<lambda>r. flat d (g r)) xs)"
  by (induction xs) auto

lemma flat_matrix: "flat (Suc d) (map json_vector rows) = map JNum (concat rows)"
  unfolding json_vector_def flat_arrays by (simp add: flat_numbers map_concat comp_def)

lemma flat_grid: "flat (Suc (Suc d)) (map json_matrix planes) = map JNum (concat (concat planes))"
  by (induction planes) (simp_all add: json_matrix_def flat_matrix)

lemma Float32Array_JNum: "Float32Array (map JNum xs) = xs"
  by (simp add: Float32Array_def comp_def)


lemma loadVolumeJSON_formB:
  "loadVolumeJSON (formB_doc shp aff vox) =
     Inr \<lparr>voxel = concat (concat vox),
          dims = (let sh = map JNum shp in [idx sh 1, idx sh 2, idx sh 0]),
          affine = concat aff\<rparr>"
  by (simp add: loadVolumeJSON_def formB_doc_def json_grid_def json_vector_def [of shp]
      json_matrix_def [of aff] flat_grid [of 1, simplified] flat_matrix [of 0, simplified]
      Float32Array_JNum eval_nat_numeral Let_def)

subsection \<open>The code and the specification on strictly laid-out texts\<close>

lemma trim_both_decomp:
  obtains a b where "xs = a @ rev (dropWhile P (rev (dropWhile P xs))) @ b"
    and "\<forall>x \<in> set a. P x" and "\<forall>x \<in> set b. P x"
proof -
  let ?m = "dropWhile P xs"
  have 1: "xs = takeWhile P xs @ ?m" by simp
  have "rev ?m = takeWhile P (rev ?m) @ dropWhile P (rev ?m)" by simp
  then have "rev (rev ?m) = rev (takeWhile P (rev ?m) @ dropWhile P (rev ?m))" by simp
  then have 2: "?m = rev (dropWhile P (rev ?m)) @ rev (takeWhile P (rev ?m))"
    by (simp only: rev_rev_ident rev_append)
  have a: "\<forall>x \<in> set (takeWhile P xs). P x" by (auto dest: set_takeWhileD)
  have b: "\<forall>x \<in> set (rev (takeWhile P (rev ?m))). P x" by (auto dest: set_takeWhileD)
  have "xs = takeWhile P xs @ rev (dropWhile P (rev ?m)) @ rev (takeWhile P (rev ?m))"
    using 1 2 by metis
  then show thesis using a b by (rule that)
qed

lemma unsplit_Cons_Cons: "unsplit sep ((c # t) # ts) = c # unsplit sep (t # ts)"
  by (cases ts) simp_all

lemma unsplit_split_on: "unsplit sep (split_on sep s) = s"
proof (induction s)
  case Nil
  show ?case by simp
next
  case (Cons c cs)
  obtain u us where r: "split_on sep cs = u # us"
    by (cases "split_on sep cs") auto
  show ?case
    using Cons r by (cases "c = sep") (simp_all add: Let_def unsplit_Cons_Cons)
qed

lemma plain_tok_facts:
  assumes "plain_tok t"
  shows "t \<noteq> []" and "\<forall>c \<in> set t. \<not> is_ws c" and "CHR '' '' \<notin> set t"
    and "\<not> is_ws (hd t)" and "\<not> is_ws (last t)"
  using assms is_ws_space by (auto simp: plain_tok_def list_all_iff)

lemma spec_tokens_plain:
  assumes "ts \<noteq> []" and "list_all plain_tok ts" and "\<forall>c \<in> set rp. is_ws c"
  shows "spec_tokens (unsplit CHR '' '' ts @ rp) = ts"
  using assms
proof (induction "CHR '' ''" ts rule: unsplit.induct)
  case 1
  then show ?case by simp
next
  case (2 t)
  then have t: "t \<noteq> []" "\<forall>c \<in> set t. \<not> is_ws c"
    by (auto dest: plain_tok_facts(1,2))
  show ?case
  proof (cases rp)
    case Nil
    then show ?thesis using t by (simp add: spec_tokens_last)
  next
    case (Cons d rp')
    then have "is_ws d" "\<forall>c \<in> set rp'. is_ws c" using "2.prems"(3) by auto
    then show ?thesis
      using t Cons by (simp add: spec_tokens_token spec_tokens_blank)
  qed
next
  case (3 t u ts)
  then have t: "t \<noteq> []" "\<forall>c \<in> set t. \<not> is_ws c"
    by (auto dest: plain_tok_facts(1,2))
  have "spec_tokens (unsplit CHR '' '' (u # ts) @ rp) = u # ts"
    using 3 by simp
  then show ?case
    using t is_ws_space by (simp add: spec_tokens_token)
qed

lemma strict_line_tokens:
  assumes "strict_line l"
  shows "spec_tokens l = split_on CHR '' '' (js_trim l)"
proof -
  let ?ts = "split_on CHR '' '' (js_trim l)"
  obtain lp rp where d: "l = lp @ js_trim l @ rp"
    and lp: "\<forall>c \<in> set lp. is_ws c" and rp: "\<forall>c \<in> set rp. is_ws c"
    unfolding js_trim_def by (rule trim_both_decomp)
  have ts: "list_all plain_tok ?ts" using assms by (simp add: strict_line_def)
  have u: "js_trim l = unsplit CHR '' '' ?ts" by (simp add: unsplit_split_on)
  have "spec_tokens l = spec_tokens (lp @ unsplit CHR '' '' ?ts @ rp)"
    using d u by simp
  also have "\<dots> = spec_tokens (unsplit CHR '' '' ?ts @ rp)"
    using lp by (rule spec_tokens_ws)
  also have "\<dots> = ?ts"
    using ts rp by (intro spec_tokens_plain) simp_all
  finally show ?thesis .
qed

lemma strict_line_numbers:
  assumes "strict_line l"
  shows "line_numbers l = map (\<lambda>t. JNum (js_Number t)) (spec_tokens l)"
  by (simp add: line_numbers_def strict_line_tokens [OF assms])

lemma strict_section_numbers:
  assumes "list_all strict_line ls"
  shows "concat (map line_numbers ls) = map (\<lambda>t. JNum (js_Number t)) (concat (map spec_tokens ls))"
  using assms by (induction ls) (simp_all add: strict_line_numbers)

lemma blank_line_facts:
  assumes "blank_line l"
  shows "js_trim l = []" and "spec_tokens l = []"
  using assms by (simp_all add: blank_line_def list_all_iff js_trim_ws spec_tokens_blank)

lemma blank_lines_voxel:
  assumes "\<forall>l \<in> set bs. blank_line l"
  shows "concat (map (\<lambda>l. js_trim l @ '' '') bs) = replicate (length bs) CHR '' ''"
    and "concat (map spec_tokens bs) = []"
  using assms by (induction bs) (simp_all add: blank_line_facts)

lemma strict_line_trim:
  assumes "strict_line l"
  shows "js_trim l = unsplit CHR '' '' (spec_tokens l)" and "spec_tokens l \<noteq> []"
    and "list_all plain_tok (spec_tokens l)"
  using assms
  by (simp_all add: strict_line_tokens unsplit_split_on) (simp add: strict_line_def)

lemma strict_lines_voxel:
  assumes "list_all strict_line ss" and "ss \<noteq> []"
  shows "concat (map (\<lambda>l. js_trim l @ '' '') ss)
     = unsplit CHR '' '' (concat (map spec_tokens ss)) @ '' ''"
proof -
  have "concat (map (\<lambda>l. js_trim l @ '' '') ss)
      = concat (map (\<lambda>ts. unsplit CHR '' '' ts @ [CHR '' '']) (map spec_tokens ss))"
    using assms(1) by (induction ss) (simp_all add: strict_line_trim(1))
  also have "\<dots> = unsplit CHR '' '' (concat (map spec_tokens ss)) @ [CHR '' '']"
    using assms by (intro unsplit_concat) (auto simp: list_all_iff dest: strict_line_trim(2))
  finally show ?thesis by simp
qed

lemma line_numbers_padded:
  assumes "ts \<noteq> []" and "list_all plain_tok ts"
    and "\<forall>c \<in> set lp. is_ws c" and "\<forall>c \<in> set rp. is_ws c"
  shows "line_numbers (lp @ unsplit CHR '' '' ts @ rp) = map (\<lambda>t. JNum (js_Number t)) ts"
proof -
  have h: "plain_tok (hd ts)" and l: "plain_tok (last ts)"
    using assms(1,2) by (auto simp: list_all_iff)
  have n: "unsplit CHR '' '' ts \<noteq> []"
    using assms(1) plain_tok_facts(1) [OF h] by (rule unsplit_not_Nil)
  have "js_trim (lp @ unsplit CHR '' '' ts @ rp) = unsplit CHR '' '' ts"
    using assms(3,4) n plain_tok_facts(1,4) [OF h] plain_tok_facts(1,5) [OF l] assms(1)
    by (intro js_trim_padded) (simp_all add: hd_unsplit last_unsplit)
  moreover have "split_on CHR '' '' (unsplit CHR '' '' ts) = ts"
    using assms(1,2) by (intro split_unsplit) (auto simp: list_all_iff dest: plain_tok_facts(3))
  ultimately show ?thesis by (simp add: line_numbers_def)
qed

lemma voxel_numbers_decomp:
  assumes "\<forall>l \<in> set a. blank_line l" and "\<forall>l \<in> set b. blank_line l"
    and "ss \<noteq> []" and "list_all strict_line ss"
  shows "line_numbers (concat (map (\<lambda>l. js_trim l @ '' '') (a @ ss @ b)))
     = map (\<lambda>t. JNum (js_Number t)) (concat (map spec_tokens (a @ ss @ b)))"
proof -
  let ?T = "concat (map spec_tokens ss)"
  obtain s0 ss' where ss: "ss = s0 # ss'" using assms(3) by (cases ss) auto
  have "strict_line s0" using assms(4) ss by simp
  then have "spec_tokens s0 \<noteq> []" by (rule strict_line_trim(2))
  then have T1: "?T \<noteq> []" by (simp add: ss)
  have T2: "list_all plain_tok ?T"
    using assms(4) by (induction ss) (simp_all add: strict_line_trim(3))
  have s: "concat (map spec_tokens (a @ ss @ b)) = ?T"
    by (simp add: blank_lines_voxel(2) [OF assms(1)] blank_lines_voxel(2) [OF assms(2)])
  have c: "concat (map (\<lambda>l. js_trim l @ '' '') (a @ ss @ b))
      = replicate (length a) CHR '' '' @ unsplit CHR '' '' ?T
        @ (CHR '' '' # replicate (length b) CHR '' '')"
    by (simp add: blank_lines_voxel(1) [OF assms(1)] blank_lines_voxel(1) [OF assms(2)]
        strict_lines_voxel [OF assms(4,3)])
  have "line_numbers (replicate (length a) CHR '' '' @ unsplit CHR '' '' ?T
        @ (CHR '' '' # replicate (length b) CHR '' '')) = map (\<lambda>t. JNum (js_Number t)) ?T"
    using T1 T2 is_ws_space by (intro line_numbers_padded) simp_all
  then show ?thesis by (simp only: s c)
qed

lemma strict_voxel_numbers:
  assumes "trim_blank vs \<noteq> []" and "list_all strict_line (trim_blank vs)"
  shows "line_numbers (concat (map (\<lambda>l. js_trim l @ '' '') vs))
     = map (\<lambda>t. JNum (js_Number t)) (concat (map spec_tokens vs))"
proof -
  obtain a b where d: "vs = a @ trim_blank vs @ b"
    and a: "\<forall>l \<in> set a. blank_line l" and b: "\<forall>l \<in> set b. blank_line l"
    unfolding trim_blank_def by (rule trim_both_decomp)
  have "line_numbers (concat (map (\<lambda>l. js_trim l @ '' '') (a @ trim_blank vs @ b)))
     = map (\<lambda>t. JNum (js_Number t)) (concat (map spec_tokens (a @ trim_blank vs @ b)))"
    using a b assms by (rule voxel_numbers_decomp)
  then show ?thesis by (simp only: d [symmetric])
qed

lemma parse_strict:
  assumes "strict_text text"
  shows "parseVoxelTxt text =
     \<lparr>voxel = spec_values ''--voxel--'' text,
      dims = (let sh = map JNum (spec_values ''--header--'' text)
              in [idx sh 1, idx sh 2, idx sh 0]),
      affine = spec_values ''--affine--'' text\<rparr>"
proof -
  let ?ls = "split_on CHR 0x0A text"
  have ok: "list_all strict_line (lines_in ''--header--'' None ?ls)"
    "list_all strict_line (lines_in ''--affine--'' None ?ls)"
    "trim_blank (lines_in ''--voxel--'' None ?ls) \<noteq> []"
    "list_all strict_line (trim_blank (lines_in ''--voxel--'' None ?ls))"
    using assms by (simp_all add: strict_text_def Let_def)
  have m: "map (\<lambda>t. JNum (js_Number t)) xs = map JNum (map js_Number xs)" for xs
    by simp
  show ?thesis
    unfolding parseVoxelTxt_by_sections Let_def spec_values_def
      strict_section_numbers [OF ok(1)] strict_section_numbers [OF ok(2)]
      strict_voxel_numbers [OF ok(3,4)] m Float32Array_JNum
    by simp
qed

section \<open>The two forms of a volume\<close>

text \<open>
  C1. The claim has a header or shape \<open>[d, h, w]\<close> give the dims \<open>(w, h, d)\<close>. The code
  does not do so where height and width differ. For the shape 1 x 2 x 3, with the
  voxels 1 to 6 in two rows of three, both ingestion functions give the dims
  \<open>(2, 3, 1)\<close> and not \<open>(3, 2, 1)\<close>, and the upload of \<open>main\<close> is made with a texture
  two texels wide and a row pitch of 8 bytes, two values to the row, from data whose
  rows hold three values.
\<close>

theorem dims_slip_at_1_2_3:
  "dims (parseVoxelTxt sample_text) = [JNum (Num 2), JNum (Num 3), JNum (Num 1)]
   \<and> dims (parseVoxelTxt sample_text) \<noteq> [JNum (Num 3), JNum (Num 2), JNum (Num 1)]
   \<and> map_sum id dims (loadVolumeJSON sample_doc) = Inr [JNum (Num 2), JNum (Num 3), JNum (Num 1)]
   \<and> map_sum id dims (loadVolumeJSON sample_doc) \<noteq> Inr [JNum (Num 3), JNum (Num 2), JNum (Num 1)]
   \<and> main_upload (voxel (parseVoxelTxt sample_text)) (dims (parseVoxelTxt sample_text))
       = [CreateTexture [JNum (Num 2), JNum (Num 3), JNum (Num 1)],
          WriteTexture [Num 1, Num 2, Num 3, Num 4, Num 5, Num 6] (Num 8) (JNum (Num 3))
            [JNum (Num 2), JNum (Num 3), JNum (Num 1)]]"
  by code_simp

text \<open>
  C3, as the code has it. A strictly laid-out text (tokens separated by exactly one
  space, no blank line inside the header or the affine section or between the lines of
  the voxel section, at least one voxel line) and a document that hold the same shape,
  the same affine entries row by row and the same voxel values plane by plane and row
  by row are ingested to the same record: the same dims, the same affine array and the
  same samples in the same order. What the text holds is read in the words of the
  specification, as its tokens delimited by white space.
\<close>

theorem formA_formB_agree:
  assumes "strict_text text"
    and "spec_values ''--header--'' text = shp"
    and "spec_values ''--affine--'' text = concat aff"
    and "spec_values ''--voxel--'' text = concat (concat vox)"
  shows "loadVolumeJSON (formB_doc shp aff vox) = Inr (parseVoxelTxt text)"
  unfolding loadVolumeJSON_formB parse_strict [OF assms(1)] assms(2-4) by simp

theorem formA_formB_agree_witness:
  "strict_text text_crlf
   \<and> spec_values ''--header--'' text_crlf = [Num 1, Num 2, Num 3]
   \<and> spec_values ''--affine--'' text_crlf = concat identity_rows
   \<and> spec_values ''--voxel--'' text_crlf
       = concat (concat [[[Num 0.5, Num 2, Num 3], [Num 4, NegZero, Num (- 60)]]])
   \<and> loadVolumeJSON
        (formB_doc [Num 1, Num 2, Num 3] identity_rows
           [[[Num 0.5, Num 2, Num 3], [Num 4, NegZero, Num (- 60)]]])
       = Inr (parseVoxelTxt text_crlf)"
proof -
  have h1: "strict_text text_crlf" by code_simp
  have h2: "spec_values ''--header--'' text_crlf = [Num 1, Num 2, Num 3]"
    by code_simp
  have h3: "spec_values ''--affine--'' text_crlf = concat identity_rows"
    by code_simp
  have h4: "spec_values ''--voxel--'' text_crlf
       = concat (concat [[[Num 0.5, Num 2, Num 3], [Num 4, NegZero, Num (- 60)]]])"
    by code_simp
  from formA_formB_agree [OF h1 h2 h3 h4] h1 h2 h3 h4 show ?thesis by blast
qed

text \<open>
  The claim as stated fails on a text in which two spaces separate two tokens. The text
  below holds the shape 1 x 1 x 2, the identity and the voxels 1 and 2, as the document
  does; the document is ingested to the samples \<open>[1, 2]\<close> and the text to
  \<open>[1, 0, 2]\<close>, the empty piece between the two spaces being read as the number 0.
\<close>

theorem formA_formB_counterexample:
  "spec_values ''--header--'' text_double_space = [Num 1, Num 1, Num 2]
   \<and> spec_values ''--affine--'' text_double_space = concat identity_rows
   \<and> spec_values ''--voxel--'' text_double_space = concat (concat [[[Num 1, Num 2]]])
   \<and> loadVolumeJSON (formB_doc [Num 1, Num 1, Num 2] identity_rows [[[Num 1, Num 2]]])
       = Inr \<lparr>voxel = [Num 1, Num 2], dims = [JNum (Num 1), JNum (Num 2), JNum (Num 1)],
              affine = concat identity_rows\<rparr>
   \<and> parseVoxelTxt text_double_space
       = \<lparr>voxel = [Num 1, Num 0, Num 2], dims = [JNum (Num 1), JNum (Num 2), JNum (Num 1)],
          affine = concat identity_rows\<rparr>
   \<and> loadVolumeJSON (formB_doc [Num 1, Num 1, Num 2] identity_rows [[[Num 1, Num 2]]])
       \<noteq> Inr (parseVoxelTxt text_double_space)"
  by code_simp

text \<open>
  A blank line inside a section is read as the number 0 in the same way: the text below
  holds the 16 entries of the identity and is ingested to 17 affine entries.
\<close>

lemma blank_line_sample:
  "spec_values ''--affine--'' text_blank_line = concat identity_rows
   \<and> affine (parseVoxelTxt text_blank_line) = concat identity_rows @ [Num 0]"
  by code_simp

section \<open>Inputs that the parser does not reject\<close>

lemma fold_section_absent:
  assumes "\<not> has_section name text"
  shows "lines_in name None (split_on CHR 0x0A text) = []"
  using assms unfolding has_section_def by (intro lines_in_absent) simp_all

lemma main_upload_first:
  "take 2 (fst (main gl w h low high voxelData dims' affine')) = main_upload voxelData dims'"
  by (simp add: main_def main_upload_def split: sum.splits)

lemma program_gl_sample:
  "program gl_sample w h low high text =
     (main_upload (voxel (parseVoxelTxt text)) (dims (parseVoxelTxt text)), Some TypeError)"
  by (simp add: program_def main_def render_def deriveMatrices_def pack_uniforms_def ta_set_def
      gl_sample_def Let_def split: prod.splits)

text \<open>
  C4, as the code has it. For a text with no affine section the parser raises no error:
  it returns a record whose affine array is empty, and \<open>main\<close> is called with that
  record, so that the first two backend calls are the texture creation and the texture
  write of the upload.
\<close>

theorem missing_affine_not_rejected:
  assumes "\<not> has_section ''--affine--'' text"
  shows "affine (parseVoxelTxt text) = []
       \<and> take 2 (fst (program gl w h low high text))
         = main_upload (voxel (parseVoxelTxt text)) (dims (parseVoxelTxt text))"
  using fold_section_absent [OF assms]
  by (simp add: program_def main_upload_first parseVoxelTxt_by_sections Let_def Float32Array_def)

theorem missing_affine_not_rejected_witness:
  "\<not> has_section ''--affine--'' text_no_affine2
   \<and> affine (parseVoxelTxt text_no_affine2) = []
   \<and> take 2 (fst (program gl_sample 800 600 (Num 0) (Num 1) text_no_affine2))
       = [CreateTexture [JNum (Num 1), JNum (Num 1), JNum (Num 2)],
          WriteTexture [Num 5, Num 7] (Num 4) (JNum (Num 1))
            [JNum (Num 1), JNum (Num 1), JNum (Num 2)]]"
proof -
  have h: "\<not> has_section ''--affine--'' text_no_affine2" by code_simp
  have u: "main_upload (voxel (parseVoxelTxt text_no_affine2)) (dims (parseVoxelTxt text_no_affine2))
       = [CreateTexture [JNum (Num 1), JNum (Num 1), JNum (Num 2)],
          WriteTexture [Num 5, Num 7] (Num 4) (JNum (Num 1))
            [JNum (Num 1), JNum (Num 1), JNum (Num 2)]]"
    by code_simp
  from missing_affine_not_rejected [OF h, of gl_sample 800 600 "Num 0" "Num 1"]
  have "affine (parseVoxelTxt text_no_affine2) = []"
    and "take 2 (fst (program gl_sample 800 600 (Num 0) (Num 1) text_no_affine2))
       = main_upload (voxel (parseVoxelTxt text_no_affine2)) (dims (parseVoxelTxt text_no_affine2))"
    by blast+
  with h u show ?thesis by (simp only: simp_thms)
qed

text \<open>
  The claim as stated fails: for the text below, which has a header and a voxel section
  and no affine section, the parser returns a record, the upload is made, and the first
  error is the TypeError of the frame, after the upload.
\<close>

theorem missing_affine_counterexample:
  "\<not> has_section ''--affine--'' text_no_affine
   \<and> parseVoxelTxt text_no_affine
       = \<lparr>voxel = [Num 5], dims = [JNum (Num 1), JNum (Num 1), JNum (Num 1)], affine = []\<rparr>
   \<and> program gl_sample 800 600 (Num 0) (Num 1) text_no_affine
       = ([CreateTexture [JNum (Num 1), JNum (Num 1), JNum (Num 1)],
           WriteTexture [Num 5] (Num 4) (JNum (Num 1)) [JNum (Num 1), JNum (Num 1), JNum (Num 1)]],
          Some TypeError)"
proof -
  have h: "\<not> has_section ''--affine--'' text_no_affine" by code_simp
  have p: "parseVoxelTxt text_no_affine
       = \<lparr>voxel = [Num 5], dims = [JNum (Num 1), JNum (Num 1), JNum (Num 1)], affine = []\<rparr>"
    by code_simp
  have u: "main_upload (voxel (parseVoxelTxt text_no_affine)) (dims (parseVoxelTxt text_no_affine))
       = [CreateTexture [JNum (Num 1), JNum (Num 1), JNum (Num 1)],
          WriteTexture [Num 5] (Num 4) (JNum (Num 1)) [JNum (Num 1), JNum (Num 1), JNum (Num 1)]]"
    by code_simp
  have g: "program gl_sample 800 600 (Num 0) (Num 1) text_no_affine
       = ([CreateTexture [JNum (Num 1), JNum (Num 1), JNum (Num 1)],
           WriteTexture [Num 5] (Num 4) (JNum (Num 1)) [JNum (Num 1), JNum (Num 1), JNum (Num 1)]],
          Some TypeError)"
    by (simp only: program_gl_sample u)
  from h p g show ?thesis by blast
qed

text \<open>
  C9, as the code has it. Ingestion computes no determinant. A text whose parsed affine
  matrix has determinant zero is parsed like any other: \<open>main\<close> is called with its
  record, the upload is made, and the matrix reaches the frame, whose outcome is that
  of \<open>render\<close> on it.
\<close>

theorem singular_affine_not_rejected:
  assumes "determinant (affine (parseVoxelTxt text)) = Num 0"
  shows "take 2 (fst (program gl w h low high text))
         = main_upload (voxel (parseVoxelTxt text)) (dims (parseVoxelTxt text))
       \<and> snd (program gl w h low high text)
         = (case fst (render gl (affine (parseVoxelTxt text)) (dims (parseVoxelTxt text)) low high
                       \<lparr>cam = camera_init, canvas_width = w, canvas_height = h\<rparr>) of
              Inl e \<Rightarrow> Some e | Inr calls \<Rightarrow> None)"
  by (simp add: program_def main_upload_first Let_def) (simp add: main_def split: sum.splits)

theorem singular_affine_not_rejected_witness:
  "determinant (affine (parseVoxelTxt text_singular2)) = Num 0
   \<and> take 2 (fst (program gl_sample 800 600 (Num 0) (Num 1) text_singular2))
       = [CreateTexture [JNum (Num 1), JNum (Num 1), JNum (Num 1)],
          WriteTexture [Num 5] (Num 4) (JNum (Num 1)) [JNum (Num 1), JNum (Num 1), JNum (Num 1)]]"
proof -
  have h: "determinant (affine (parseVoxelTxt text_singular2)) = Num 0" by code_simp
  have u: "main_upload (voxel (parseVoxelTxt text_singular2)) (dims (parseVoxelTxt text_singular2))
       = [CreateTexture [JNum (Num 1), JNum (Num 1), JNum (Num 1)],
          WriteTexture [Num 5] (Num 4) (JNum (Num 1)) [JNum (Num 1), JNum (Num 1), JNum (Num 1)]]"
    by code_simp
  from singular_affine_not_rejected [OF h, of gl_sample 800 600 "Num 0" "Num 1"]
  have "take 2 (fst (program gl_sample 800 600 (Num 0) (Num 1) text_singular2))
       = main_upload (voxel (parseVoxelTxt text_singular2)) (dims (parseVoxelTxt text_singular2))"
    by blast
  with h u show ?thesis by (simp only: simp_thms)
qed

text \<open>
  The claim as stated fails: the text below has the zero matrix as its affine section;
  the parser returns it, its determinant is zero, and the upload is made.
\<close>

theorem singular_affine_counterexample:
  "affine (parseVoxelTxt text_singular) = replicate 16 (Num 0)
   \<and> determinant (affine (parseVoxelTxt text_singular)) = Num 0
   \<and> program gl_sample 800 600 (Num 0) (Num 1) text_singular
       = ([CreateTexture [JNum (Num 1), JNum (Num 1), JNum (Num 1)],
           WriteTexture [Num 5] (Num 4) (JNum (Num 1)) [JNum (Num 1), JNum (Num 1), JNum (Num 1)]],
          Some TypeError)"
proof -
  have a: "affine (parseVoxelTxt text_singular) = replicate 16 (Num 0)" by code_simp
  have d: "determinant (affine (parseVoxelTxt text_singular)) = Num 0" by code_simp
  have u: "main_upload (voxel (parseVoxelTxt text_singular)) (dims (parseVoxelTxt text_singular))
       = [CreateTexture [JNum (Num 1), JNum (Num 1), JNum (Num 1)],
          WriteTexture [Num 5] (Num 4) (JNum (Num 1)) [JNum (Num 1), JNum (Num 1), JNum (Num 1)]]"
    by code_simp
  have g: "program gl_sample 800 600 (Num 0) (Num 1) text_singular
       = ([CreateTexture [JNum (Num 1), JNum (Num 1), JNum (Num 1)],
           WriteTexture [Num 5] (Num 4) (JNum (Num 1)) [JNum (Num 1), JNum (Num 1), JNum (Num 1)]],
          Some TypeError)"
    by (simp only: program_gl_sample u)
  from a d g show ?thesis by blast
qed

text \<open>
  C10. The parser has no failing branch; for every text it returns a record. Each token
  of the lines of the affine section becomes the entry \<open>Number(token)\<close>, which is NaN
  for a token that is no numeric literal, and likewise each token of the voxel section,
  its lines joined by spaces. The dims are the second, third and first of the header's
  numbers, \<open>undefined\<close> where the header has no such number. A text with no affine
  section gives the empty affine array, one with no voxel section the one-entry array
  \<open>[0]\<close>, and one with no header section leaves the three components of dims
  undefined.
\<close>

theorem parser_accepts_every_text:
  "affine (parseVoxelTxt text)
     = map js_Number (concat (map (\<lambda>l. split_on CHR '' '' (js_trim l))
         (lines_in ''--affine--'' None (split_on CHR 0x0A text))))
   \<and> voxel (parseVoxelTxt text)
     = map js_Number (split_on CHR '' '' (js_trim (concat (map (\<lambda>l. js_trim l @ '' '')
         (lines_in ''--voxel--'' None (split_on CHR 0x0A text))))))
   \<and> dims (parseVoxelTxt text)
     = (let sh = concat (map line_numbers (lines_in ''--header--'' None (split_on CHR 0x0A text)))
        in [idx sh 1, idx sh 2, idx sh 0])
   \<and> (\<not> has_section ''--header--'' text
        \<longrightarrow> dims (parseVoxelTxt text) = [Undefined, Undefined, Undefined])
   \<and> (\<not> has_section ''--affine--'' text \<longrightarrow> affine (parseVoxelTxt text) = [])
   \<and> (\<not> has_section ''--voxel--'' text \<longrightarrow> voxel (parseVoxelTxt text) = [Num 0])"
proof -
  have a: "affine (parseVoxelTxt text)
     = map js_Number (concat (map (\<lambda>l. split_on CHR '' '' (js_trim l))
         (lines_in ''--affine--'' None (split_on CHR 0x0A text))))"
    by (simp add: parseVoxelTxt_by_sections Let_def Float32Array_def line_numbers_def
        map_concat comp_def)
  have v: "voxel (parseVoxelTxt text)
     = map js_Number (split_on CHR '' '' (js_trim (concat (map (\<lambda>l. js_trim l @ '' '')
         (lines_in ''--voxel--'' None (split_on CHR 0x0A text))))))"
    by (simp add: parseVoxelTxt_by_sections Let_def Float32Array_def line_numbers_def comp_def)
  have l: "dims (parseVoxelTxt text)
     = (let sh = concat (map line_numbers (lines_in ''--header--'' None (split_on CHR 0x0A text)))
        in [idx sh 1, idx sh 2, idx sh 0])"
    by (simp add: parseVoxelTxt_by_sections Let_def)
  have h: "dims (parseVoxelTxt text) = [Undefined, Undefined, Undefined]"
    if "\<not> has_section ''--header--'' text"
    using fold_section_absent [OF that]
    by (simp add: parseVoxelTxt_by_sections Let_def idx_def)
  have a0: "affine (parseVoxelTxt text) = []" if "\<not> has_section ''--affine--'' text"
    using fold_section_absent [OF that] by (simp add: a)
  have v0: "voxel (parseVoxelTxt text) = [Num 0]" if "\<not> has_section ''--voxel--'' text"
    using fold_section_absent [OF that] by (simp add: v js_trim_def js_Number_def)
  from a v l h a0 v0 show ?thesis by blast
qed

theorem parser_accepts_every_text_witness:
  "\<not> has_section ''--header--'' [] \<and> \<not> has_section ''--affine--'' []
   \<and> \<not> has_section ''--voxel--'' []
   \<and> parseVoxelTxt [] = \<lparr>voxel = [Num 0], dims = [Undefined, Undefined, Undefined], affine = []\<rparr>
   \<and> \<not> has_section ''--voxel--'' text_nonnumeric
   \<and> parseVoxelTxt text_nonnumeric
       = \<lparr>voxel = [Num 0], dims = [Undefined, Undefined, JNum (Num 7)], affine = [NaN, Num 1]\<rparr>"
proof -
  have h: "\<not> has_section ''--header--'' []" "\<not> has_section ''--affine--'' []"
    "\<not> has_section ''--voxel--'' []" "\<not> has_section ''--voxel--'' text_nonnumeric"
    by code_simp+
  have t: "map js_Number (concat (map (\<lambda>l. split_on CHR '' '' (js_trim l))
         (lines_in ''--affine--'' None (split_on CHR 0x0A text_nonnumeric)))) = [NaN, Num 1]"
    "(let sh = concat (map line_numbers
                (lines_in ''--header--'' None (split_on CHR 0x0A text_nonnumeric)))
      in [idx sh 1, idx sh 2, idx sh 0]) = [Undefined, Undefined, JNum (Num 7)]"
    by code_simp+
  have e: "parseVoxelTxt [] = \<lparr>voxel = voxel (parseVoxelTxt []), dims = dims (parseVoxelTxt []),
      affine = affine (parseVoxelTxt [])\<rparr>"
    "parseVoxelTxt text_nonnumeric = \<lparr>voxel = voxel (parseVoxelTxt text_nonnumeric),
      dims = dims (parseVoxelTxt text_nonnumeric), affine = affine (parseVoxelTxt text_nonnumeric)\<rparr>"
    by simp_all
  from parser_accepts_every_text [of "[]"] h(1-3)
  have d1: "dims (parseVoxelTxt []) = [Undefined, Undefined, Undefined]"
    "affine (parseVoxelTxt []) = []" "voxel (parseVoxelTxt []) = [Num 0]"
    by blast+
  have 1: "parseVoxelTxt [] = \<lparr>voxel = [Num 0], dims = [Undefined, Undefined, Undefined], affine = []\<rparr>"
    by (subst e(1)) (simp only: d1)
  from parser_accepts_every_text [of text_nonnumeric] h(4)
  have d2: "voxel (parseVoxelTxt text_nonnumeric) = [Num 0]"
    by blast
  from parser_accepts_every_text [of text_nonnumeric]
  have "affine (parseVoxelTxt text_nonnumeric)
     = map js_Number (concat (map (\<lambda>l. split_on CHR '' '' (js_trim l))
         (lines_in ''--affine--'' None (split_on CHR 0x0A text_nonnumeric))))"
    and "dims (parseVoxelTxt text_nonnumeric)
     = (let sh = concat (map line_numbers
                   (lines_in ''--header--'' None (split_on CHR 0x0A text_nonnumeric)))
        in [idx sh 1, idx sh 2, idx sh 0])"
    by blast+
  then have d3: "affine (parseVoxelTxt text_nonnumeric) = [NaN, Num 1]"
    "dims (parseVoxelTxt text_nonnumeric) = [Undefined, Undefined, JNum (Num 7)]"
    by (simp_all only: t)
  have 2: "parseVoxelTxt text_nonnumeric
       = \<lparr>voxel = [Num 0], dims = [Undefined, Undefined, JNum (Num 7)], affine = [NaN, Num 1]\<rparr>"
    by (subst e(2)) (simp only: d2 d3)
  from h 1 2 show ?thesis by blast
qed

end
